theory Spec2Isabelle
  imports Main "HOL-Library.Sublist" "HOL-Library.Multiset" "HOL-Library.AList"
    "HOL-Library.Char_ord" "HOL-Library.List_Lexorder" "HOL-Library.Product_Lexorder"
begin

section \<open>Go strings and the library functions the service calls\<close>

text \<open>
  A Go string is a sequence of bytes; text is UTF-8. The model uses \<open>string\<close>
  (a list of 8-bit characters), so a code point beyond ASCII is several characters.
\<close>

definition newline :: string where
  "newline = [CHR 0x0A]"

subsection \<open>strings.TrimSpace\<close>

text \<open>
  The UTF-8 encodings of the code points for which \<open>unicode.IsSpace\<close> holds:
  tab, line feed, vertical tab, form feed, carriage return, space, U+0085, U+00A0,
  U+1680, U+2000 to U+200A, U+2028, U+2029, U+202F, U+205F and U+3000.
\<close>

definition space_runes :: "string list" where
  "space_runes =
    [[CHR 0x09], [CHR 0x0A], [CHR 0x0B], [CHR 0x0C], [CHR 0x0D], [CHR 0x20],
     [CHR 0xC2, CHR 0x85], [CHR 0xC2, CHR 0xA0],
     [CHR 0xE1, CHR 0x9A, CHR 0x80],
     [CHR 0xE2, CHR 0x80, CHR 0x80], [CHR 0xE2, CHR 0x80, CHR 0x81],
     [CHR 0xE2, CHR 0x80, CHR 0x82], [CHR 0xE2, CHR 0x80, CHR 0x83],
     [CHR 0xE2, CHR 0x80, CHR 0x84], [CHR 0xE2, CHR 0x80, CHR 0x85],
     [CHR 0xE2, CHR 0x80, CHR 0x86], [CHR 0xE2, CHR 0x80, CHR 0x87],
     [CHR 0xE2, CHR 0x80, CHR 0x88], [CHR 0xE2, CHR 0x80, CHR 0x89],
     [CHR 0xE2, CHR 0x80, CHR 0x8A],
     [CHR 0xE2, CHR 0x80, CHR 0xA8], [CHR 0xE2, CHR 0x80, CHR 0xA9],
     [CHR 0xE2, CHR 0x80, CHR 0xAF], [CHR 0xE2, CHR 0x81, CHR 0x9F],
     [CHR 0xE3, CHR 0x80, CHR 0x80]]"

text \<open>
  \<open>strip_prefixes ws s\<close> removes from the front of \<open>s\<close> every leading occurrence of
  one of the non-empty words \<open>ws\<close>, until none is a prefix any more. With the
  encodings above this is \<open>strings.TrimLeftFunc(s, unicode.IsSpace)\<close>: a string starts
  with a white-space rune exactly when it starts with that rune's encoding.
\<close>

function strip_prefixes :: "string list \<Rightarrow> string \<Rightarrow> string" where
  "strip_prefixes ws s =
     (case find (\<lambda>w. w \<noteq> [] \<and> prefix w s) ws of
        None \<Rightarrow> s
      | Some w \<Rightarrow> strip_prefixes ws (drop (length w) s))"
  by pat_completeness auto
termination
proof (relation "measure (\<lambda>(ws, s). length s)")
  show "wf (measure (\<lambda>(ws, s). length s))" by simp
next
  fix ws :: "string list" and s :: string and w :: string
  assume "find (\<lambda>w. w \<noteq> [] \<and> prefix w s) ws = Some w"
  then have w: "w \<noteq> []" "prefix w s"
    by (auto simp: find_Some_iff)
  from w(2) have "length w \<le> length s"
    by (rule prefix_length_le)
  moreover from w(1) have "0 < length w"
    by simp
  ultimately have "length s - length w < length s"
    by arith
  then show "((ws, drop (length w) s), (ws, s)) \<in> measure (\<lambda>(ws, s). length s)"
    by simp
qed

declare strip_prefixes.simps [simp del]

text \<open>
  The trailing white space is removed the same way on the reversed string: a string ends
  with a white-space rune exactly when it ends with that rune's encoding.
\<close>

definition TrimSpace :: "string \<Rightarrow> string" where
  "TrimSpace s =
     rev (strip_prefixes (map rev space_runes) (rev (strip_prefixes space_runes s)))"

subsection \<open>strings.Split, strings.Join, strings.ToLower, strings.HasSuffix\<close>

text \<open>
  \<open>strings.Split(s, sep)\<close> for a separator of one byte: the pieces of \<open>s\<close> between
  the occurrences of the separator. The result always has at least one piece.
\<close>

fun Split :: "string \<Rightarrow> char \<Rightarrow> string list" where
  "Split [] sep = [[]]"
| "Split (c # s) sep =
     (if c = sep then [] # Split s sep
      else (case Split s sep of
              [] \<Rightarrow> [[c]]
            | p # ps \<Rightarrow> (c # p) # ps))"

fun Join :: "string list \<Rightarrow> string \<Rightarrow> string" where
  "Join [] sep = []"
| "Join [x] sep = x"
| "Join (x # y # ys) sep = x @ sep @ Join (y # ys) sep"

text \<open>Lower-casing, on the ASCII letters.\<close>

definition lower_char :: "char \<Rightarrow> char" where
  "lower_char c =
     (if 65 \<le> (of_char c :: nat) \<and> (of_char c :: nat) \<le> 90
      then char_of ((of_char c :: nat) + 32) else c)"

definition ToLower :: "string \<Rightarrow> string" where
  "ToLower s = map lower_char s"

definition HasSuffix :: "string \<Rightarrow> string \<Rightarrow> bool" where
  "HasSuffix s suf = suffix suf s"


subsection \<open>path/filepath\<close>

text \<open>
  \<open>filepath.Clean\<close> on a slash-separated path: empty and \<open>.\<close> elements go, a
  \<open>..\<close> element removes the element before it, and a \<open>..\<close> with nothing before it
  is dropped in a rooted path and kept otherwise. \<open>out\<close> holds the elements kept so
  far, the last one first.
\<close>

fun clean_elems :: "bool \<Rightarrow> string list \<Rightarrow> string list \<Rightarrow> string list" where
  "clean_elems rooted out [] = rev out"
| "clean_elems rooted out (e # es) =
     (if e = [] \<or> e = ''.'' then clean_elems rooted out es
      else if e = ''..'' then
        (case out of
           [] \<Rightarrow> (if rooted then clean_elems rooted [] es
                  else clean_elems rooted [''..''] es)
         | t # ts \<Rightarrow> (if t = ''..'' then clean_elems rooted (''..'' # out) es
                      else clean_elems rooted ts es))
      else clean_elems rooted (e # out) es)"

definition filepath_Clean :: "string \<Rightarrow> string" where
  "filepath_Clean p =
     (case p of
        [] \<Rightarrow> ''.''
      | c # _ \<Rightarrow>
          (let rooted = (c = CHR ''/'');
               body = Join (clean_elems rooted [] (Split p (CHR ''/''))) ''/''
           in if rooted then ''/'' @ body
              else if body = [] then ''.'' else body))"

text \<open>\<open>filepath.Join\<close> of two elements: empty elements are ignored, the result is cleaned.\<close>

definition filepath_Join :: "string \<Rightarrow> string \<Rightarrow> string" where
  "filepath_Join a b =
     (case filter (\<lambda>e. e \<noteq> []) [a, b] of
        [] \<Rightarrow> []
      | es \<Rightarrow> filepath_Clean (Join es ''/''))"

text \<open>
  \<open>filepath.Base\<close>: the last element of the path, after the trailing slashes are
  removed; \<open>.\<close> for the empty path and \<open>/\<close> for a path of slashes only.
\<close>

definition filepath_Base :: "string \<Rightarrow> string" where
  "filepath_Base p =
     (if p = [] then ''.''
      else (let q = rev (dropWhile (\<lambda>c. c = CHR ''/'') (rev p))
            in if q = [] then ''/'' else last (Split q (CHR ''/''))))"

subsection \<open>The process environment\<close>

text \<open>\<open>os.Getenv\<close> gives the empty string for a variable that is not set.\<close>

definition Getenv :: "(string \<times> string) list \<Rightarrow> string \<Rightarrow> string" where
  "Getenv env key = (case map_of env key of None \<Rightarrow> [] | Some v \<Rightarrow> v)"

definition Environ :: "(string \<times> string) list \<Rightarrow> string list" where
  "Environ env = map (\<lambda>(k, v). k @ ''='' @ v) env"

subsection \<open>Numbers and times as text\<close>

text \<open>The digit of a number below ten.\<close>

definition digit_char :: "nat \<Rightarrow> char" where
  "digit_char d = ''0123456789'' ! d"

fun Itoa_nat :: "nat \<Rightarrow> string" where
  "Itoa_nat n =
     (if n < 10 then [digit_char n] else Itoa_nat (n div 10) @ [digit_char (n mod 10)])"

declare Itoa_nat.simps [simp del]

text \<open>The verb \<open>%d\<close> of \<open>fmt.Sprintf\<close> on an integer.\<close>

definition Itoa :: "int \<Rightarrow> string" where
  "Itoa i = (if i < 0 then CHR ''-'' # Itoa_nat (nat (- i)) else Itoa_nat (nat i))"

text \<open>Go's \<open>%\<close> truncates towards zero: the remainder has the sign of the dividend.\<close>

definition go_rem :: "int \<Rightarrow> int \<Rightarrow> int" where
  "go_rem a b = sgn a * (\<bar>a\<bar> mod \<bar>b\<bar>)"

text \<open>
  A reading of the clock. \<open>time.Now()\<close> is an input of the model; a reading is used
  either through its calendar fields (by \<open>Format\<close>) or as an instant, which the model
  takes as the nanoseconds since the Unix epoch (\<open>UnixNano\<close>), an integer without
  bound.
\<close>

type_synonym Time = int

record calendar =
  tm_year :: nat
  tm_month :: nat
  tm_day :: nat
  tm_hour :: nat
  tm_minute :: nat
  tm_second :: nat

definition zero_pad :: "nat \<Rightarrow> nat \<Rightarrow> string" where
  "zero_pad width n = replicate (width - length (Itoa_nat n)) (CHR ''0'') @ Itoa_nat n"

text \<open>\<open>t.Format("20060102-150405")\<close>.\<close>

definition Format_stamp :: "calendar \<Rightarrow> string" where
  "Format_stamp t =
     zero_pad 4 (tm_year t) @ zero_pad 2 (tm_month t) @ zero_pad 2 (tm_day t) @ ''-'' @
     zero_pad 2 (tm_hour t) @ zero_pad 2 (tm_minute t) @ zero_pad 2 (tm_second t)"

subsection \<open>JSON documents\<close>

text \<open>
  The service stores two JSON documents as text: the parameter map of a task and the list
  of its output files. The model keeps such a text as the value it encodes:
  \<open>Encoded x\<close> is the text \<open>json.Marshal\<close> gives for \<open>x\<close>, \<open>EmptyText\<close> is the
  empty string and \<open>Malformed\<close> is a text that \<open>json.Unmarshal\<close> rejects. A map is the
  list of its entries in the order a \<open>range\<close> loop visits them; its keys are distinct. The
  order in which a map is written says nothing about the order in which it is visited once
  read back: a property that depends on the order is stated for every arrangement of the
  entries.
\<close>

datatype 'a json_text = EmptyText | Malformed | Encoded 'a

definition json_Marshal :: "'a \<Rightarrow> 'a json_text" where
  "json_Marshal x = Encoded x"

fun json_Unmarshal :: "'a json_text \<Rightarrow> 'a option" where
  "json_Unmarshal (Encoded x) = Some x"
| "json_Unmarshal EmptyText = None"
| "json_Unmarshal Malformed = None"

section \<open>The constants and the task\<close>

definition uploadDir :: string where
  "uploadDir = ''/tmp/babeldoc/uploads''"

definition outputDir :: string where
  "outputDir = ''/tmp/babeldoc/outputs''"

definition logsDir :: string where
  "logsDir = ''/tmp/babeldoc/logs''"

record Task =
  ID :: string
  Filename :: string
  Status :: string
  LangIn :: string
  LangOut :: string
  Pages :: string
  Params :: "(string \<times> string) list json_text"
  CreatedAt :: Time
  StartedAt :: "Time option"
  CompletedAt :: "Time option"
  Error :: string
  OutputFile :: string
  OutputFiles :: "string list"

text \<open>
  A row of the table \<open>tasks\<close>. The columns that \<open>createTable\<close> leaves nullable and
  that the insert does not fill are options; \<open>id\<close> is the primary key.
\<close>

record Row =
  col_id :: string
  col_filename :: string
  col_status :: string
  col_lang_in :: string
  col_lang_out :: string
  col_pages :: string
  col_params :: "(string \<times> string) list json_text option"
  col_created_at :: Time
  col_started_at :: "Time option"
  col_completed_at :: "Time option"
  col_error :: "string option"
  col_output_file :: "string option"
  col_output_files :: "string list json_text option"

subsection \<open>The statements the service runs on the table\<close>

text \<open>
  The table is the list of its rows, in the order of their insertion. The insert fails
  when a row with the same primary key exists; other failures of the database are not
  part of the model.
\<close>

definition sql_insert :: "Row list \<Rightarrow> Row \<Rightarrow> Row list option" where
  "sql_insert db r =
     (if list_ex (\<lambda>r'. col_id r' = col_id r) db then None else Some (db @ [r]))"

definition sql_update_started :: "Row list \<Rightarrow> string \<Rightarrow> Time option \<Rightarrow> string \<Rightarrow> Row list" where
  "sql_update_started db st started i =
     map (\<lambda>r. if col_id r = i then r\<lparr>col_status := st, col_started_at := started\<rparr> else r) db"

definition sql_update_failed ::
  "Row list \<Rightarrow> string \<Rightarrow> Time option \<Rightarrow> string \<Rightarrow> string \<Rightarrow> Row list" where
  "sql_update_failed db st completed err i =
     map (\<lambda>r. if col_id r = i
              then r\<lparr>col_status := st, col_completed_at := completed, col_error := Some err\<rparr>
              else r) db"

definition sql_update_success ::
  "Row list \<Rightarrow> string \<Rightarrow> Time option \<Rightarrow> string \<Rightarrow> string list json_text \<Rightarrow> string \<Rightarrow> Row list"
  where
  "sql_update_success db st completed file files i =
     map (\<lambda>r. if col_id r = i
              then r\<lparr>col_status := st, col_completed_at := completed,
                     col_output_file := Some file, col_output_files := Some files\<rparr>
              else r) db"

definition sql_delete :: "Row list \<Rightarrow> string \<Rightarrow> Row list" where
  "sql_delete db i = filter (\<lambda>r. col_id r \<noteq> i) db"



definition sql_select_by_id :: "Row list \<Rightarrow> string \<Rightarrow> Row option" where
  "sql_select_by_id db i = find (\<lambda>r. col_id r = i) db"

section \<open>The log messages\<close>

definition zh_start_task :: string where
  \<comment> \<open>UTF-8 bytes of the code points U+5F00 U+59CB U+7FFB U+8BD1 U+4EFB U+52A1\<close>
  "zh_start_task =
    [CHR 0xE5, CHR 0xBC, CHR 0x80, CHR 0xE5, CHR 0xA7, CHR 0x8B, CHR 0xE7, CHR 0xBF, CHR 0xBB,
     CHR 0xE8, CHR 0xAF, CHR 0x91, CHR 0xE4, CHR 0xBB, CHR 0xBB, CHR 0xE5, CHR 0x8A, CHR 0xA1]"

definition zh_filename :: string where
  \<comment> \<open>UTF-8 bytes of the code points U+6587 U+4EF6 U+540D\<close>
  "zh_filename =
    [CHR 0xE6, CHR 0x96, CHR 0x87, CHR 0xE4, CHR 0xBB, CHR 0xB6, CHR 0xE5, CHR 0x90, CHR 0x8D]"

definition zh_language :: string where
  \<comment> \<open>UTF-8 bytes of the code points U+8BED U+8A00\<close>
  "zh_language =
    [CHR 0xE8, CHR 0xAF, CHR 0xAD, CHR 0xE8, CHR 0xA8, CHR 0x80]"

definition zh_use_env :: string where
  \<comment> \<open>UTF-8 bytes of the code points U+4F7F U+7528 U+73AF U+5883 U+53D8 U+91CF U+914D U+7F6E\<close>
  "zh_use_env =
    [CHR 0xE4, CHR 0xBD, CHR 0xBF, CHR 0xE7, CHR 0x94, CHR 0xA8, CHR 0xE7, CHR 0x8E, CHR 0xAF,
     CHR 0xE5, CHR 0xA2, CHR 0x83, CHR 0xE5, CHR 0x8F, CHR 0x98, CHR 0xE9, CHR 0x87, CHR 0x8F,
     CHR 0xE9, CHR 0x85, CHR 0x8D, CHR 0xE7, CHR 0xBD, CHR 0xAE]"

definition zh_not_configured :: string where
  \<comment> \<open>UTF-8 bytes of the code points U+672A U+914D U+7F6E\<close>
  "zh_not_configured =
    [CHR 0xE6, CHR 0x9C, CHR 0xAA, CHR 0xE9, CHR 0x85, CHR 0x8D, CHR 0xE7, CHR 0xBD, CHR 0xAE]"

definition zh_fill_form :: string where
  \<comment> \<open>UTF-8 bytes of the code points U+FF0C U+8BF7 U+5728 U+8868 U+5355 U+4E2D U+586B U+5199\<close>
  "zh_fill_form =
    [CHR 0xEF, CHR 0xBC, CHR 0x8C, CHR 0xE8, CHR 0xAF, CHR 0xB7, CHR 0xE5, CHR 0x9C, CHR 0xA8,
     CHR 0xE8, CHR 0xA1, CHR 0xA8, CHR 0xE5, CHR 0x8D, CHR 0x95, CHR 0xE4, CHR 0xB8, CHR 0xAD,
     CHR 0xE5, CHR 0xA1, CHR 0xAB, CHR 0xE5, CHR 0x86, CHR 0x99]"

definition zh_sep_model :: string where
  \<comment> \<open>UTF-8 bytes of the code points U+3001 U+6A21 U+578B U+548C\<close>
  "zh_sep_model =
    [CHR 0xE3, CHR 0x80, CHR 0x81, CHR 0xE6, CHR 0xA8, CHR 0xA1, CHR 0xE5, CHR 0x9E, CHR 0x8B,
     CHR 0xE5, CHR 0x92, CHR 0x8C]"

definition zh_or_set_env :: string where
  \<comment> \<open>UTF-8 bytes of the code points U+FF0C U+6216 U+8BBE U+7F6E U+73AF U+5883 U+53D8 U+91CF\<close>
  "zh_or_set_env =
    [CHR 0xEF, CHR 0xBC, CHR 0x8C, CHR 0xE6, CHR 0x88, CHR 0x96, CHR 0xE8, CHR 0xAE, CHR 0xBE,
     CHR 0xE7, CHR 0xBD, CHR 0xAE, CHR 0xE7, CHR 0x8E, CHR 0xAF, CHR 0xE5, CHR 0xA2, CHR 0x83,
     CHR 0xE5, CHR 0x8F, CHR 0x98, CHR 0xE9, CHR 0x87, CHR 0x8F]"

definition zh_use_frontend :: string where
  \<comment> \<open>UTF-8 bytes of the code points U+4F7F U+7528 U+524D U+7AEF U+4F20 U+9012 U+7684\<close>
  "zh_use_frontend =
    [CHR 0xE4, CHR 0xBD, CHR 0xBF, CHR 0xE7, CHR 0x94, CHR 0xA8, CHR 0xE5, CHR 0x89, CHR 0x8D,
     CHR 0xE7, CHR 0xAB, CHR 0xAF, CHR 0xE4, CHR 0xBC, CHR 0xA0, CHR 0xE9, CHR 0x80, CHR 0x92,
     CHR 0xE7, CHR 0x9A, CHR 0x84]"

definition zh_config :: string where
  \<comment> \<open>UTF-8 bytes of the code points U+914D U+7F6E\<close>
  "zh_config =
    [CHR 0xE9, CHR 0x85, CHR 0x8D, CHR 0xE7, CHR 0xBD, CHR 0xAE]"

definition zh_exec_cmd :: string where
  \<comment> \<open>UTF-8 bytes of the code points U+6267 U+884C U+547D U+4EE4\<close>
  "zh_exec_cmd =
    [CHR 0xE6, CHR 0x89, CHR 0xA7, CHR 0xE8, CHR 0xA1, CHR 0x8C, CHR 0xE5, CHR 0x91, CHR 0xBD,
     CHR 0xE4, CHR 0xBB, CHR 0xA4]"

definition zh_cannot_start :: string where
  \<comment> \<open>UTF-8 bytes of the code points U+65E0 U+6CD5 U+542F U+52A8 U+547D U+4EE4\<close>
  "zh_cannot_start =
    [CHR 0xE6, CHR 0x97, CHR 0xA0, CHR 0xE6, CHR 0xB3, CHR 0x95, CHR 0xE5, CHR 0x90, CHR 0xAF,
     CHR 0xE5, CHR 0x8A, CHR 0xA8, CHR 0xE5, CHR 0x91, CHR 0xBD, CHR 0xE4, CHR 0xBB, CHR 0xA4]"

definition zh_cmd_failed :: string where
  \<comment> \<open>UTF-8 bytes of the code points U+547D U+4EE4 U+6267 U+884C U+5931 U+8D25\<close>
  "zh_cmd_failed =
    [CHR 0xE5, CHR 0x91, CHR 0xBD, CHR 0xE4, CHR 0xBB, CHR 0xA4, CHR 0xE6, CHR 0x89, CHR 0xA7,
     CHR 0xE8, CHR 0xA1, CHR 0x8C, CHR 0xE5, CHR 0xA4, CHR 0xB1, CHR 0xE8, CHR 0xB4, CHR 0xA5]"

definition zh_no_output :: string where
  \<comment> \<open>UTF-8 bytes of the code points U+672A U+627E U+5230 U+8F93 U+51FA U+6587 U+4EF6\<close>
  "zh_no_output =
    [CHR 0xE6, CHR 0x9C, CHR 0xAA, CHR 0xE6, CHR 0x89, CHR 0xBE, CHR 0xE5, CHR 0x88, CHR 0xB0,
     CHR 0xE8, CHR 0xBE, CHR 0x93, CHR 0xE5, CHR 0x87, CHR 0xBA, CHR 0xE6, CHR 0x96, CHR 0x87,
     CHR 0xE4, CHR 0xBB, CHR 0xB6]"

definition zh_cannot_move :: string where
  \<comment> \<open>UTF-8 bytes of the code points U+65E0 U+6CD5 U+79FB U+52A8 U+6587 U+4EF6\<close>
  "zh_cannot_move =
    [CHR 0xE6, CHR 0x97, CHR 0xA0, CHR 0xE6, CHR 0xB3, CHR 0x95, CHR 0xE7, CHR 0xA7, CHR 0xBB,
     CHR 0xE5, CHR 0x8A, CHR 0xA8, CHR 0xE6, CHR 0x96, CHR 0x87, CHR 0xE4, CHR 0xBB, CHR 0xB6]"

definition zh_generated :: string where
  \<comment> \<open>UTF-8 bytes of the code points U+751F U+6210 U+6587 U+4EF6\<close>
  "zh_generated =
    [CHR 0xE7, CHR 0x94, CHR 0x9F, CHR 0xE6, CHR 0x88, CHR 0x90, CHR 0xE6, CHR 0x96, CHR 0x87,
     CHR 0xE4, CHR 0xBB, CHR 0xB6]"

definition zh_cannot_save :: string where
  \<comment> \<open>UTF-8 bytes of the code points U+65E0 U+6CD5 U+4FDD U+5B58 U+8F93 U+51FA U+6587 U+4EF6\<close>
  "zh_cannot_save =
    [CHR 0xE6, CHR 0x97, CHR 0xA0, CHR 0xE6, CHR 0xB3, CHR 0x95, CHR 0xE4, CHR 0xBF, CHR 0x9D,
     CHR 0xE5, CHR 0xAD, CHR 0x98, CHR 0xE8, CHR 0xBE, CHR 0x93, CHR 0xE5, CHR 0x87, CHR 0xBA,
     CHR 0xE6, CHR 0x96, CHR 0x87, CHR 0xE4, CHR 0xBB, CHR 0xB6]"

definition zh_done :: string where
  \<comment> \<open>UTF-8 bytes of the code points U+4EFB U+52A1 U+5B8C U+6210 U+FF01\<close>
  "zh_done =
    [CHR 0xE4, CHR 0xBB, CHR 0xBB, CHR 0xE5, CHR 0x8A, CHR 0xA1, CHR 0xE5, CHR 0xAE, CHR 0x8C,
     CHR 0xE6, CHR 0x88, CHR 0x90, CHR 0xEF, CHR 0xBC, CHR 0x81]"

definition zh_cannot_create_log :: string where
  \<comment> \<open>UTF-8 bytes of the code points U+65E0 U+6CD5 U+521B U+5EFA U+65E5 U+5FD7 U+6587 U+4EF6\<close>
  "zh_cannot_create_log =
    [CHR 0xE6, CHR 0x97, CHR 0xA0, CHR 0xE6, CHR 0xB3, CHR 0x95, CHR 0xE5, CHR 0x88, CHR 0x9B,
     CHR 0xE5, CHR 0xBB, CHR 0xBA, CHR 0xE6, CHR 0x97, CHR 0xA5, CHR 0xE5, CHR 0xBF, CHR 0x97,
     CHR 0xE6, CHR 0x96, CHR 0x87, CHR 0xE4, CHR 0xBB, CHR 0xB6]"



section \<open>Submitting a task\<close>

text \<open>
  What \<open>submitTaskHandler\<close> reads of a request: the method, whether
  \<open>ParseMultipartForm\<close> fails, the name of the uploaded file (if the form has one) and
  the form values \<open>r.Form\<close>, a map from a key to its values.
\<close>

record request =
  req_method :: string
  req_parse_error :: bool
  req_file :: "string option"
  req_form :: "(string \<times> string list) list"

text \<open>
  What the handler reads of its surroundings: the three readings of the clock, in the
  order of the calls, whether \<open>os.Create\<close> and \<open>io.Copy\<close> fail, and the text of the
  database's error for a failed insert.
\<close>

record submit_world =
  clock_stamp :: calendar
  clock_nano :: Time
  clock_created :: Time
  create_error :: bool
  copy_error :: bool
  insert_error_text :: string

datatype submit_response = Rejected nat string | Accepted string

text \<open>
  The outcome: the response, the table afterwards, the task sent to the queue and the
  path of the uploaded file that the handler leaves on disk.
\<close>

record submit_result =
  response :: submit_response
  new_db :: "Row list"
  enqueued :: "Task option"
  stored_input :: "string option"

definition FormValue :: "(string \<times> string list) list \<Rightarrow> string \<Rightarrow> string" where
  "FormValue form key =
     (case map_of form key of
        None \<Rightarrow> []
      | Some vs \<Rightarrow> (case vs of [] \<Rightarrow> [] | v # _ \<Rightarrow> v))"

definition gen_taskID :: "string \<Rightarrow> Time \<Rightarrow> string" where
  "gen_taskID timestamp nano = timestamp @ ''_'' @ Itoa (go_rem nano 10000)"

text \<open>The body of the loop over \<open>r.Form\<close> that fills \<open>paramsMap\<close>.\<close>

definition collect_param ::
  "string \<times> string list \<Rightarrow> (string \<times> string) list \<Rightarrow> (string \<times> string) list" where
  "collect_param kv paramsMap =
     (case kv of (key, vals) \<Rightarrow>
        (case vals of
           [] \<Rightarrow> paramsMap
         | v # _ \<Rightarrow>
             (if key \<noteq> ''file'' \<and> key \<noteq> ''lang_in'' \<and> key \<noteq> ''lang_out'' \<and> key \<noteq> ''pages''
              then (let val = TrimSpace v
                    in if val \<noteq> [] \<and> val \<noteq> ''false'' \<and> val \<noteq> ''off''
                       then AList.update key val paramsMap
                       else paramsMap)
              else paramsMap)))"

definition collect_params :: "(string \<times> string list) list \<Rightarrow> (string \<times> string) list" where
  "collect_params form = fold collect_param form []"

text \<open>
  The row that the \<open>INSERT\<close> statement of the handler writes for a task: eight columns
  from the task, the others null.
\<close>

definition task_row :: "Task \<Rightarrow> Row" where
  "task_row task =
     \<lparr>col_id = ID task, col_filename = Filename task, col_status = Status task,
      col_lang_in = LangIn task, col_lang_out = LangOut task, col_pages = Pages task,
      col_params = Some (Params task), col_created_at = CreatedAt task,
      col_started_at = None, col_completed_at = None, col_error = None,
      col_output_file = None, col_output_files = None\<rparr>"

definition rejected :: "nat \<Rightarrow> string \<Rightarrow> Row list \<Rightarrow> submit_result" where
  "rejected code msg db =
     \<lparr>response = Rejected code msg, new_db = db, enqueued = None, stored_input = None\<rparr>"

definition submitTaskHandler :: "request \<Rightarrow> submit_world \<Rightarrow> Row list \<Rightarrow> submit_result" where
  "submitTaskHandler r w db =
     (if req_method r \<noteq> ''POST'' then rejected 405 ''Method not allowed'' db
      else if req_parse_error r then rejected 400 ''File too large'' db
      else
        (case req_file r of
           None \<Rightarrow> rejected 400 ''Error retrieving file'' db
         | Some headerFilename \<Rightarrow>
             (if \<not> HasSuffix (ToLower headerFilename) ''.pdf''
              then rejected 400 ''Only PDF files are allowed'' db
              else
                (let timestamp = Format_stamp (clock_stamp w);
                     taskID = gen_taskID timestamp (clock_nano w);
                     filename = timestamp @ ''_'' @ headerFilename;
                     inputPath = filepath_Join uploadDir filename
                 in if create_error w then rejected 500 ''Error creating file'' db
                    else if copy_error w then rejected 500 ''Error saving file'' db
                    else
                      (let langIn = (if FormValue (req_form r) ''lang_in'' = [] then ''en''
                                     else FormValue (req_form r) ''lang_in'');
                           langOut = (if FormValue (req_form r) ''lang_out'' = [] then ''zh''
                                      else FormValue (req_form r) ''lang_out'');
                           pages = FormValue (req_form r) ''pages'';
                           paramsJSON = json_Marshal (collect_params (req_form r));
                           task = \<lparr>ID = taskID, Filename = headerFilename, Status = ''queued'',
                                   LangIn = langIn, LangOut = langOut, Pages = pages,
                                   Params = paramsJSON, CreatedAt = clock_created w,
                                   StartedAt = None, CompletedAt = None, Error = [],
                                   OutputFile = [], OutputFiles = []\<rparr>
                       in (case sql_insert db (task_row task) of
                             None \<Rightarrow>
                               rejected 500 (''Error saving task: '' @ insert_error_text w) db
                           | Some db' \<Rightarrow>
                               \<lparr>response = Accepted taskID, new_db = db',
                                enqueued = Some task, stored_input = Some inputPath\<rparr>))))))"

section \<open>Listing the tasks\<close>

text \<open>
  The task that \<open>rows.Scan\<close> and the assignments after it build from a row on which
  the scan does not fail.
\<close>

definition scan_task :: "Row \<Rightarrow> Task" where
  "scan_task r =
     \<lparr>ID = col_id r, Filename = col_filename r, Status = col_status r,
      LangIn = col_lang_in r, LangOut = col_lang_out r, Pages = col_pages r,
      Params = (case col_params r of None \<Rightarrow> EmptyText | Some p \<Rightarrow> p),
      CreatedAt = col_created_at r,
      StartedAt = col_started_at r,
      CompletedAt = col_completed_at r,
      Error = (case col_error r of None \<Rightarrow> [] | Some e \<Rightarrow> e),
      OutputFile = (case col_output_file r of None \<Rightarrow> [] | Some f \<Rightarrow> f),
      OutputFiles =
        (case col_output_files r of
           None \<Rightarrow> []
         | Some j \<Rightarrow>
             (if j \<noteq> EmptyText
              then (case json_Unmarshal j of None \<Rightarrow> [] | Some fs \<Rightarrow> fs)
              else []))\<rparr>"


section \<open>Downloading a result\<close>

datatype download_response = HttpError nat string | ServeFile string string

text \<open>
  \<open>downloadTaskHandler\<close>, from the table, the files that exist (\<open>os.Stat\<close>), the task
  id of the URL and the query value \<open>file\<close>. \<open>ServeFile path name\<close> is the response
  that serves \<open>path\<close> as the attachment \<open>name\<close>.
\<close>

definition downloadTaskHandler ::
  "Row list \<Rightarrow> (string \<Rightarrow> bool) \<Rightarrow> string \<Rightarrow> string \<Rightarrow> download_response" where
  "downloadTaskHandler db file_exists taskID fileName =
     (if taskID = [] then HttpError 400 ''Invalid task ID''
      else if fileName \<noteq> [] then
        (case sql_select_by_id db taskID of
           None \<Rightarrow> HttpError 404 ''Task not found''
         | Some r \<Rightarrow>
             (if (case col_output_files r of
                    None \<Rightarrow> False
                  | Some outputFilesJSON \<Rightarrow>
                      outputFilesJSON \<noteq> EmptyText \<and>
                      (case json_Unmarshal outputFilesJSON of
                         None \<Rightarrow> False
                       | Some outputFiles \<Rightarrow> \<not> list_ex (\<lambda>f. f = fileName) outputFiles))
              then HttpError 404 ''File not found''
              else
                (let filePath = filepath_Join outputDir fileName
                 in if \<not> file_exists filePath then HttpError 404 ''File not found''
                    else ServeFile filePath (filepath_Base fileName))))
      else
        (case sql_select_by_id db taskID of
           None \<Rightarrow> HttpError 404 ''File not found''
         | Some r \<Rightarrow>
             (case col_output_file r of
                None \<Rightarrow> HttpError 404 ''File not found''
              | Some outputFile \<Rightarrow>
                  (if outputFile = [] then HttpError 404 ''File not found''
                   else
                     (let filePath = filepath_Join outputDir outputFile
                      in if \<not> file_exists filePath then HttpError 404 ''File not found''
                         else ServeFile filePath (filepath_Base outputFile))))))"


section \<open>Deleting a task\<close>

datatype delete_response = DeleteError nat string | Deleted

text \<open>
  \<open>deleteTaskHandler\<close>, from the method, the task id of the URL, whether the
  \<open>DELETE\<close> statement fails, and the table: the response, the table afterwards and the
  paths it removes, in this order (a removal that fails is ignored).
\<close>

record delete_result =
  del_response :: delete_response
  del_db :: "Row list"
  del_removed :: "string list"

definition deleteTaskHandler ::
  "string \<Rightarrow> string \<Rightarrow> bool \<Rightarrow> Row list \<Rightarrow> delete_result" where
  "deleteTaskHandler method taskID exec_error db =
     (if method \<noteq> ''DELETE''
      then \<lparr>del_response = DeleteError 405 ''Method not allowed'', del_db = db, del_removed = []\<rparr>
      else if taskID = []
      then \<lparr>del_response = DeleteError 400 ''Invalid task ID'', del_db = db, del_removed = []\<rparr>
      else
        (case sql_select_by_id db taskID of
           None \<Rightarrow>
             \<lparr>del_response = DeleteError 404 ''Task not found'', del_db = db, del_removed = []\<rparr>
         | Some r \<Rightarrow>
             (let timestamp = hd (Split taskID (CHR ''_''));
                  inputPath = filepath_Join uploadDir (timestamp @ ''_'' @ col_filename r);
                  outputFile =
                    (case col_output_file r of
                       None \<Rightarrow> []
                     | Some f \<Rightarrow> if f \<noteq> [] then [filepath_Join outputDir f] else []);
                  outputFiles =
                    (case col_output_files r of
                       None \<Rightarrow> []
                     | Some j \<Rightarrow>
                         (if j \<noteq> EmptyText
                          then (case json_Unmarshal j of
                                  None \<Rightarrow> []
                                | Some fs \<Rightarrow> map (filepath_Join outputDir) fs)
                          else []));
                  outputSubDir = filepath_Join outputDir taskID;
                  logFile = filepath_Join logsDir (taskID @ ''.log'');
                  removed = [inputPath] @ outputFile @ outputFiles @ [outputSubDir, logFile]
              in if exec_error
                 then \<lparr>del_response = DeleteError 500 ''Error deleting task'', del_db = db,
                       del_removed = removed\<rparr>
                 else \<lparr>del_response = Deleted, del_db = sql_delete db taskID,
                       del_removed = removed\<rparr>)))"

section \<open>Running a task\<close>

datatype stream = Stdout | Stderr

text \<open>
  What \<open>processTask\<close> reads of its surroundings: the clock at the start and at the
  end, whether the log file cannot be created, the environment of the server, the errors
  of \<open>cmd.Start\<close> and \<open>cmd.Wait\<close> (if any), the lines of the program that reach the
  log, the result of \<open>filepath.Glob\<close> (\<open>None\<close> for an error) and the error of
  \<open>os.Rename\<close> for a source and a target.

  Two readers write the lines the program prints to the log while \<open>processTask\<close> goes
  on, and nothing waits for them. \<open>printed w k\<close> are the lines that are written after
  \<open>processTask\<close> has written \<open>k\<close> messages since the start of the process and
  before it writes the next one, in the order in which they are written; a line that is
  never written, because the run ends first, is in none of these lists.
\<close>

record world =
  clock_started :: Time
  clock_completed :: Time
  log_create_error :: bool
  environ :: "(string \<times> string) list"
  start_error :: "string option"
  printed :: "nat \<Rightarrow> (stream \<times> string) list"
  wait_error :: "string option"
  glob_result :: "string list option"
  rename_error :: "string \<Rightarrow> string \<Rightarrow> string option"

text \<open>
  What \<open>processTask\<close> changes: the task, the table, the log file (the messages of
  \<open>writeLog\<close> in order) and the process it started, with its arguments and its
  environment (\<open>None\<close> while no process has been started).
\<close>

record run_state =
  rs_task :: Task
  rs_db :: "Row list"
  rs_log :: "string list"
  rs_spawned :: "(string list \<times> string list) option"

definition writeLog :: "run_state \<Rightarrow> string \<Rightarrow> run_state" where
  "writeLog st msg = st\<lparr>rs_log := rs_log st @ [msg]\<rparr>"

definition failTask :: "world \<Rightarrow> run_state \<Rightarrow> string \<Rightarrow> run_state" where
  "failTask w st errorMsg =
     (let task = (rs_task st)\<lparr>Status := ''failed'', CompletedAt := Some (clock_completed w),
                               Error := errorMsg\<rparr>
      in st\<lparr>rs_task := task,
            rs_db := sql_update_failed (rs_db st) (Status task) (CompletedAt task)
                       (Error task) (ID task)\<rparr>)"

text \<open>The state of the loop over the parameter map.\<close>

record param_state =
  args :: "string list"
  hasAPIKey :: bool
  hasModel :: bool
  hasBaseURL :: bool

definition param_body :: "string \<times> string \<Rightarrow> param_state \<Rightarrow> param_state" where
  "param_body kv ps =
     (case kv of (key, raw) \<Rightarrow>
        (let val = TrimSpace raw;
             ps1 = (if key = ''openai-api-key'' \<and> val \<noteq> [] then ps\<lparr>hasAPIKey := True\<rparr> else ps);
             ps2 = (if key = ''openai-model'' \<and> val \<noteq> [] then ps1\<lparr>hasModel := True\<rparr> else ps1);
             ps3 = (if key = ''openai-base-url'' \<and> val \<noteq> [] then ps2\<lparr>hasBaseURL := True\<rparr>
                    else ps2)
         in if val \<noteq> [] then
              (if val = ''true'' \<or> val = ''on'' then ps3\<lparr>args := args ps3 @ [''--'' @ key]\<rparr>
               else if val \<noteq> ''false'' \<and> val \<noteq> ''off''
                    then ps3\<lparr>args := args ps3 @ [''--'' @ key, val]\<rparr>
                    else ps3)
            else ps3))"

definition parse_params :: "(string \<times> string) list json_text \<Rightarrow> param_state \<Rightarrow> param_state" where
  "parse_params params ps =
     (if params \<noteq> EmptyText
      then (case json_Unmarshal params of
              None \<Rightarrow> ps
            | Some paramsMap \<Rightarrow> fold param_body paramsMap ps)
      else ps)"

text \<open>The path of the uploaded file and the scratch directory, as the worker derives them.\<close>

definition task_inputPath :: "Task \<Rightarrow> string" where
  "task_inputPath task =
     (let timestamp = hd (Split (ID task) (CHR ''_''))
      in filepath_Join uploadDir (timestamp @ ''_'' @ Filename task))"

definition task_outputSubDir :: "Task \<Rightarrow> string" where
  "task_outputSubDir task = filepath_Join outputDir (ID task)"

definition base_args :: "Task \<Rightarrow> string list" where
  "base_args task =
     (let args0 = [''--files'', task_inputPath task,
                   ''--lang-in'', LangIn task,
                   ''--lang-out'', LangOut task,
                   ''--output'', task_outputSubDir task]
      in if Pages task \<noteq> [] then args0 @ [''--pages'', Pages task] else args0)"

text \<open>The entries that are appended to the environment of the process.\<close>

definition credential_env :: "(string \<times> string) list json_text \<Rightarrow> string list" where
  "credential_env params =
     (if params \<noteq> EmptyText
      then (case json_Unmarshal params of
              None \<Rightarrow> []
            | Some paramsMap \<Rightarrow>
                (case map_of paramsMap ''openai-api-key'' of
                   None \<Rightarrow> []
                 | Some apiKey \<Rightarrow> if apiKey \<noteq> [] then [''OPENAI_API_KEY='' @ apiKey] else []) @
                (case map_of paramsMap ''openai-base-url'' of
                   None \<Rightarrow> []
                 | Some baseURL \<Rightarrow> if baseURL \<noteq> [] then [''OPENAI_BASE_URL='' @ baseURL] else []))
      else [])"

definition printed_line :: "stream \<times> string \<Rightarrow> string" where
  "printed_line l =
     (case l of
        (Stdout, text) \<Rightarrow> text @ newline
      | (Stderr, text) \<Rightarrow> ''[STDERR] '' @ text @ newline)"

text \<open>The body of the loop that moves the files found to the output directory.\<close>

definition move_file ::
  "world \<Rightarrow> string \<Rightarrow> string \<Rightarrow> string list \<times> run_state \<Rightarrow> string list \<times> run_state" where
  "move_file w taskID file acc =
     (case acc of (outputFilenames, st) \<Rightarrow>
        (let outputFilename = taskID @ ''_'' @ filepath_Base file;
             finalPath = filepath_Join outputDir outputFilename
         in (case rename_error w file finalPath of
               Some err \<Rightarrow>
                 (outputFilenames,
                  writeLog st (''WARNING: '' @ zh_cannot_move @ '' '' @ file @ '': '' @ err @ newline))
             | None \<Rightarrow>
                 (outputFilenames @ [outputFilename],
                  writeLog st (''==> '' @ zh_generated @ '': '' @ outputFilename @ newline)))))"

text \<open>The last part of \<open>processTask\<close>, after the process has ended without an error.\<close>

definition collect_outputs :: "world \<Rightarrow> run_state \<Rightarrow> run_state" where
  "collect_outputs w st =
     (case glob_result w of
        None \<Rightarrow> failTask w (writeLog st (''ERROR: '' @ zh_no_output @ newline)) zh_no_output
      | Some files \<Rightarrow>
          (if length files = 0
           then failTask w (writeLog st (''ERROR: '' @ zh_no_output @ newline)) zh_no_output
           else
             (case fold (move_file w (ID (rs_task st))) files ([], st) of
                (outputFilenames, st1) \<Rightarrow>
                  (case outputFilenames of
                     [] \<Rightarrow>
                       failTask w (writeLog st1 (''ERROR: '' @ zh_cannot_save @ newline))
                         zh_cannot_save
                   | first # _ \<Rightarrow>
                       (let st2 = writeLog st1 (newline @ ''==> '' @ zh_done @ newline);
                            task = (rs_task st2)\<lparr>Status := ''success'',
                                                  CompletedAt := Some (clock_completed w),
                                                  OutputFile := first,
                                                  OutputFiles := outputFilenames\<rparr>
                        in st2\<lparr>rs_task := task,
                               rs_db := sql_update_success (rs_db st2) (Status task)
                                          (CompletedAt task) (OutputFile task)
                                          (json_Marshal outputFilenames) (ID task)\<rparr>)))))"

text \<open>
  \<open>weave f k ms\<close> is the log that results when the messages \<open>ms\<close> are written in
  this order and the lines \<open>f k\<close>, \<open>f (k + 1)\<close>, ... are written before the first,
  the second, ... of them and after the last.
\<close>

fun weave :: "(nat \<Rightarrow> string list) \<Rightarrow> nat \<Rightarrow> string list \<Rightarrow> string list" where
  "weave f k [] = f k"
| "weave f k (m # ms) = f k @ m # weave f (Suc k) ms"

text \<open>
  The middle part of \<open>processTask\<close>, from the flag \<open>--openai\<close> to the end of the
  process. \<open>args0\<close> are the arguments built so far. The messages that \<open>processTask\<close>
  writes after the start are collected on their own (\<open>st2\<close> has an empty log) and are
  woven with the lines of the program at the end.
\<close>

definition run_command :: "world \<Rightarrow> run_state \<Rightarrow> string list \<Rightarrow> run_state" where
  "run_command w st args0 =
     (let cmd_args = args0 @ [''--openai''];
          st1 = writeLog st (''==> '' @ zh_exec_cmd @ '': babeldoc '' @ Join cmd_args '' '' @ newline);
          cmd_env = Environ (environ w) @ credential_env (Params (rs_task st))
      in (case start_error w of
            Some err \<Rightarrow>
              failTask w (writeLog st1 (''ERROR: '' @ zh_cannot_start @ '': '' @ err @ newline)) err
          | None \<Rightarrow>
              (let st2 = st1\<lparr>rs_log := [], rs_spawned := Some (cmd_args, cmd_env)\<rparr>;
                   st3 = (case wait_error w of
                            Some err \<Rightarrow>
                              failTask w
                                (writeLog st2
                                   (newline @ ''ERROR: '' @ zh_cmd_failed @ '': '' @ err @ newline))
                                err
                          | None \<Rightarrow> collect_outputs w st2)
               in st3\<lparr>rs_log := rs_log st1 @
                                 weave (\<lambda>k. map printed_line (printed w k)) 0 (rs_log st3)\<rparr>)))"

text \<open>The first step of \<open>processTask\<close>: the task is running.\<close>

definition start_task :: "world \<Rightarrow> Task \<Rightarrow> Row list \<Rightarrow> run_state" where
  "start_task w task0 db =
     (let task = task0\<lparr>Status := ''running'', StartedAt := Some (clock_started w)\<rparr>
      in \<lparr>rs_task = task,
          rs_db = sql_update_started db (Status task) (StartedAt task) (ID task),
          rs_log = [], rs_spawned = None\<rparr>)"

definition processTask :: "world \<Rightarrow> Task \<Rightarrow> Row list \<Rightarrow> run_state" where
  "processTask w task0 db =
     (let st0 = start_task w task0 db;
          task = rs_task st0
      in if log_create_error w then failTask w st0 zh_cannot_create_log
         else
           (let st1 = writeLog st0 (''==> '' @ zh_start_task @ '' '' @ ID task @ newline);
                st2 = writeLog st1 (''==> '' @ zh_filename @ '': '' @ Filename task @ newline);
                st3 = writeLog st2 (''==> '' @ zh_language @ '': '' @ LangIn task @ '' -> '' @
                                    LangOut task @ newline);
                ps = parse_params (Params task)
                       \<lparr>args = base_args task, hasAPIKey = False, hasModel = False,
                        hasBaseURL = False\<rparr>
            in if \<not> hasAPIKey ps \<and> \<not> hasModel ps \<and> \<not> hasBaseURL ps then
                 (let envAPIKey = Getenv (environ w) ''OPENAI_API_KEY'';
                      envModel = Getenv (environ w) ''OPENAI_MODEL'';
                      envBaseURL = Getenv (environ w) ''OPENAI_BASE_URL''
                  in if envAPIKey \<noteq> [] then
                       run_command w
                         (writeLog st3 (''==> '' @ zh_use_env @ '' OpenAI'' @ newline))
                         (args ps @ [''--openai-api-key'', envAPIKey] @
                          (if envModel \<noteq> [] then [''--openai-model'', envModel]
                           else [''--openai-model'', ''gpt-4o-mini'']) @
                          (if envBaseURL \<noteq> [] then [''--openai-base-url'', envBaseURL] else []))
                     else
                       failTask w
                         (writeLog st3
                            (''ERROR: '' @ zh_not_configured @ '' OpenAI'' @ zh_fill_form @
                             '' API Key'' @ zh_sep_model @ '' Base URL'' @ zh_or_set_env @
                             '' OPENAI_API_KEY'' @ newline))
                         (zh_not_configured @ '' OpenAI API Key''))
               else
                 run_command w
                   (writeLog st3 (''==> '' @ zh_use_frontend @ '' OpenAI '' @ zh_config @ newline))
                   (args ps)))"

section \<open>The vocabulary of the properties\<close>

text \<open>
  A parameter map supplies a key when it has an entry for the key whose value is not
  empty once trimmed. An empty or malformed parameter text supplies nothing.
\<close>

definition supplies :: "(string \<times> string) list json_text \<Rightarrow> string \<Rightarrow> bool" where
  "supplies params key =
     (case json_Unmarshal params of
        None \<Rightarrow> False
      | Some m \<Rightarrow> list_ex (\<lambda>kv. fst kv = key \<and> TrimSpace (snd kv) \<noteq> []) m)"

text \<open>The error of a task that has no API key.\<close>

definition missing_credentials :: string where
  "missing_credentials = zh_not_configured @ '' OpenAI API Key''"

text \<open>
  How a run ends: the task has failed with some error, or it has succeeded with a list of
  at least one output file. \<open>T\<close> and \<open>D\<close> are the running task and the table.
\<close>

definition ended :: "world \<Rightarrow> Task \<Rightarrow> Row list \<Rightarrow> run_state \<Rightarrow> bool" where
  "ended w T D st \<longleftrightarrow>
     (\<exists>err. rs_task st = T\<lparr>Status := ''failed'', CompletedAt := Some (clock_completed w),
                            Error := err\<rparr> \<and>
            rs_db st = sql_update_failed D ''failed'' (Some (clock_completed w)) err (ID T)) \<or>
     (\<exists>n ns. rs_task st = T\<lparr>Status := ''success'', CompletedAt := Some (clock_completed w),
                             OutputFile := n, OutputFiles := n # ns\<rparr> \<and>
            rs_db st = sql_update_success D ''success'' (Some (clock_completed w)) n
                         (Encoded (n # ns)) (ID T))"

text \<open>
  The two properties of a task record that tie its status to its completion time and to
  its output files.
\<close>

definition lifecycle_inv :: "Task \<Rightarrow> bool" where
  "lifecycle_inv t \<longleftrightarrow>
     ((CompletedAt t \<noteq> None) = (Status t = ''success'' \<or> Status t = ''failed'')) \<and>
     ((OutputFiles t \<noteq> []) = (Status t = ''success''))"

text \<open>
  The same two properties of a row of the table; the output files of a row are the list
  that its column \<open>output_files\<close> encodes.
\<close>

definition row_outputs :: "Row \<Rightarrow> string list" where
  "row_outputs r = (case col_output_files r of Some (Encoded fs) \<Rightarrow> fs | _ \<Rightarrow> [])"

definition row_inv :: "Row \<Rightarrow> bool" where
  "row_inv r \<longleftrightarrow>
     ((col_completed_at r \<noteq> None) = (col_status r = ''success'' \<or> col_status r = ''failed'')) \<and>
     ((row_outputs r \<noteq> []) = (col_status r = ''success''))"

text \<open>
  A task that has not been run yet: it has no completion time and no output files, and
  neither has any row of the table that carries its identifier.
\<close>

definition pending :: "Task \<Rightarrow> Row list \<Rightarrow> bool" where
  "pending t db \<longleftrightarrow>
     CompletedAt t = None \<and> OutputFiles t = [] \<and>
     list_all (\<lambda>r. col_id r = ID t \<longrightarrow> col_completed_at r = None \<and> col_output_files r = None) db"

text \<open>A parameter value that is not empty, \<open>false\<close> or \<open>off\<close> once trimmed.\<close>

definition kept_value :: "string \<Rightarrow> bool" where
  "kept_value v \<longleftrightarrow> TrimSpace v \<noteq> [] \<and> TrimSpace v \<noteq> ''false'' \<and> TrimSpace v \<noteq> ''off''"






section \<open>Example inputs\<close>

text \<open>A queued task with the given parameter text.\<close>

definition example_task :: "(string \<times> string) list json_text \<Rightarrow> Task" where
  "example_task P =
     \<lparr>ID = ''20240102-030405_6789'', Filename = ''report.pdf'', Status = ''queued'',
      LangIn = ''en'', LangOut = ''zh'', Pages = [], Params = P,
      CreatedAt = 1704164645000000000, StartedAt = None, CompletedAt = None,
      Error = [], OutputFile = [], OutputFiles = []\<rparr>"

text \<open>
  Surroundings in which the log file can be created, the program starts and two of its
  lines reach the log before the next message of the run, and every rename works; the
  environment, the error of the wait and the files that the glob finds are given.
\<close>

definition example_world ::
  "(string \<times> string) list \<Rightarrow> string option \<Rightarrow> string list option \<Rightarrow> world" where
  "example_world env werr found =
     \<lparr>clock_started = 1704164646000000000, clock_completed = 1704164650000000000,
      log_create_error = False, environ = env, start_error = None,
      printed = (\<lambda>k. if k = 0 then [(Stdout, ''translating''), (Stderr, ''slow network'')]
                      else []),
      wait_error = werr, glob_result = found, rename_error = (\<lambda>src dst. None)\<rparr>"

text \<open>A submission of \<open>report.pdf\<close> with the given form values.\<close>

definition example_request :: "(string \<times> string list) list \<Rightarrow> request" where
  "example_request form =
     \<lparr>req_method = ''POST'', req_parse_error = False, req_file = Some ''report.pdf'',
      req_form = form\<rparr>"

text \<open>
  Surroundings of a submission on 2 January 2024 at 03:04:05 in which the file is
  written; the second reading of the clock is given.
\<close>

definition example_submit_world :: "Time \<Rightarrow> submit_world" where
  "example_submit_world nano =
     \<lparr>clock_stamp = \<lparr>tm_year = 2024, tm_month = 1, tm_day = 2, tm_hour = 3,
                     tm_minute = 4, tm_second = 5\<rparr>,
      clock_nano = nano, clock_created = nano + 1000,
      create_error = False, copy_error = False,
      insert_error_text = ''constraint failed: UNIQUE constraint failed: tasks.id (1555)''\<rparr>"

text \<open>A file system in which one uploaded file of another task exists.\<close>

definition example_files :: "string \<Rightarrow> bool" where
  "example_files p \<longleftrightarrow> p = ''/tmp/babeldoc/uploads/20240101-010101_secret.pdf''"





text \<open>
  A table on which an identifier has been issued twice. A first task is submitted and
  deleted while it waits in the queue; a second submission in the same second, 10000
  nanoseconds later, is given the same identifier; then the worker runs the first task,
  which succeeds. \<open>example_first\<close> and \<open>example_second\<close> are the two tasks in the queue.
\<close>

definition example_first :: Task where
  "example_first = example_task (Encoded []) \<lparr>CreatedAt := 1704164645000007789\<rparr>"

definition example_second :: Task where
  "example_second = example_task (Encoded []) \<lparr>CreatedAt := 1704164645000017789\<rparr>"

definition example_reissued :: "Row list" where
  "example_reissued =
     rs_db (processTask
       (example_world [(''OPENAI_API_KEY'', ''sk-test'')] None
          (Some [''/tmp/babeldoc/outputs/20240102-030405_6789/report.zh.pdf'']))
       example_first
       (new_db (submitTaskHandler (example_request [])
          (example_submit_world 1704164645000016789)
          (del_db (deleteTaskHandler ''DELETE'' ''20240102-030405_6789'' False
             (new_db (submitTaskHandler (example_request [])
                (example_submit_world 1704164645000006789) [])))))))"

section \<open>Facts about the library functions\<close>

subsection \<open>Trimming\<close>

lemma strip_prefixes_none:
  "find (\<lambda>w. w \<noteq> [] \<and> prefix w s) ws = None \<Longrightarrow> strip_prefixes ws s = s"
  by (simp add: strip_prefixes.simps)

lemma strip_prefixes_stable:
  "find (\<lambda>w. w \<noteq> [] \<and> prefix w (strip_prefixes ws s)) ws = None"
proof (induction ws s rule: strip_prefixes.induct)
  case (1 ws s)
  show ?case
  proof (cases "find (\<lambda>w. w \<noteq> [] \<and> prefix w s) ws")
    case None
    then show ?thesis by (simp add: strip_prefixes_none)
  next
    case (Some w)
    then have "strip_prefixes ws s = strip_prefixes ws (drop (length w) s)"
      by (subst strip_prefixes.simps) simp
    with "1.IH" [OF Some] show ?thesis by simp
  qed
qed

lemma strip_prefixes_suffix: "suffix (strip_prefixes ws s) s"
proof (induction ws s rule: strip_prefixes.induct)
  case (1 ws s)
  show ?case
  proof (cases "find (\<lambda>w. w \<noteq> [] \<and> prefix w s) ws")
    case None
    then show ?thesis by (simp add: strip_prefixes_none)
  next
    case (Some w)
    then have "strip_prefixes ws s = strip_prefixes ws (drop (length w) s)"
      by (subst strip_prefixes.simps) simp
    moreover have "suffix (drop (length w) s) s"
      by (rule suffix_drop)
    ultimately show ?thesis
      using "1.IH" [OF Some] by (auto intro: suffix_order.trans)
  qed
qed

lemma TrimSpace_idem: "TrimSpace (TrimSpace s) = TrimSpace s"
proof -
  define t where "t = strip_prefixes space_runes s"
  define u where "u = strip_prefixes (map rev space_runes) (rev t)"
  have ts: "TrimSpace s = rev u"
    by (simp add: TrimSpace_def t_def u_def)
  have "suffix u (rev t)"
    unfolding u_def by (rule strip_prefixes_suffix)
  then have pre: "prefix (rev u) t"
    by (simp add: suffix_to_prefix)
  have "find (\<lambda>w. w \<noteq> [] \<and> prefix w t) space_runes = None"
    unfolding t_def by (rule strip_prefixes_stable)
  then have "find (\<lambda>w. w \<noteq> [] \<and> prefix w (rev u)) space_runes = None"
    using pre by (auto simp: find_None_iff intro: prefix_order.trans)
  then have l: "strip_prefixes space_runes (rev u) = rev u"
    by (rule strip_prefixes_none)
  have "find (\<lambda>w. w \<noteq> [] \<and> prefix w u) (map rev space_runes) = None"
    unfolding u_def by (rule strip_prefixes_stable)
  then have r: "strip_prefixes (map rev space_runes) u = u"
    by (rule strip_prefixes_none)
  show ?thesis
    unfolding ts by (simp add: TrimSpace_def l r)
qed

subsection \<open>Numbers and stamps as text\<close>

lemma digit_char_digit: "d < 10 \<Longrightarrow> digit_char d \<in> set ''0123456789''"
  unfolding digit_char_def by (rule nth_mem) simp

lemma Itoa_nat_digits: "set (Itoa_nat n) \<subseteq> set ''0123456789''"
proof (induction n rule: Itoa_nat.induct)
  case (1 n)
  show ?case
  proof (cases "n < 10")
    case True
    then show ?thesis
      using digit_char_digit [of n] by (subst Itoa_nat.simps) simp
  next
    case False
    have "n mod 10 < 10" by simp
    then have "digit_char (n mod 10) \<in> set ''0123456789''"
      by (rule digit_char_digit)
    with False "1.IH" show ?thesis
      by (subst Itoa_nat.simps) simp
  qed
qed

lemma of_char_digit_char: "d < 10 \<Longrightarrow> (of_char (digit_char d) :: nat) - 48 = d"
proof -
  assume "d < 10"
  then have "d = 0 \<or> d = 1 \<or> d = 2 \<or> d = 3 \<or> d = 4 \<or> d = 5 \<or> d = 6 \<or> d = 7 \<or> d = 8 \<or> d = 9"
    by arith
  then show ?thesis
    by (elim disjE) (simp_all add: digit_char_def)
qed

lemma Itoa_nat_value:
  "foldl (\<lambda>a c. 10 * a + (of_char c - 48)) (0::nat) (Itoa_nat n) = n"
proof (induction n rule: Itoa_nat.induct)
  case (1 n)
  show ?case
  proof (cases "n < 10")
    case True
    then have "Itoa_nat n = [digit_char n]"
      by (subst Itoa_nat.simps) simp
    with True show ?thesis
      by (simp add: of_char_digit_char)
  next
    case False
    then have "Itoa_nat n = Itoa_nat (n div 10) @ [digit_char (n mod 10)]"
      by (subst Itoa_nat.simps) simp
    moreover have "(of_char (digit_char (n mod 10)) :: nat) - 48 = n mod 10"
      by (rule of_char_digit_char) simp
    ultimately show ?thesis
      using "1.IH" [OF False] by simp
  qed
qed

lemma Itoa_nat_inj: "Itoa_nat a = Itoa_nat b \<Longrightarrow> a = b"
proof -
  assume "Itoa_nat a = Itoa_nat b"
  then have "foldl (\<lambda>a c. 10 * a + (of_char c - 48)) (0::nat) (Itoa_nat a) =
      foldl (\<lambda>a c. 10 * a + (of_char c - 48)) (0::nat) (Itoa_nat b)"
    by simp
  then show ?thesis
    by (simp only: Itoa_nat_value)
qed

lemma Itoa_inj: "Itoa i = Itoa j \<Longrightarrow> i = j"
proof -
  assume e: "Itoa i = Itoa j"
  have no_minus: "\<And>n xs. Itoa_nat n \<noteq> CHR ''-'' # xs"
  proof
    fix n xs
    assume "Itoa_nat n = CHR ''-'' # xs"
    then have "CHR ''-'' \<in> set (Itoa_nat n)" by simp
    with Itoa_nat_digits [of n] show False by auto
  qed
  show ?thesis
  proof (cases "i < 0")
    case True
    show ?thesis
    proof (cases "j < 0")
      case True
      with \<open>i < 0\<close> e have "nat (- i) = nat (- j)"
        by (auto simp: Itoa_def dest: Itoa_nat_inj)
      with True \<open>i < 0\<close> show ?thesis by simp
    next
      case False
      with True e no_minus [of "nat j" "Itoa_nat (nat (- i))"] show ?thesis
        by (simp add: Itoa_def)
    qed
  next
    case False
    show ?thesis
    proof (cases "j < 0")
      case True
      with False e no_minus [of "nat i" "Itoa_nat (nat (- j))"] show ?thesis
        by (simp add: Itoa_def)
    next
      case j: False
      with False e have "nat i = nat j"
        by (auto simp: Itoa_def dest: Itoa_nat_inj)
      with False j show ?thesis by simp
    qed
  qed
qed

lemma zero_pad_no_underscore: "CHR ''_'' \<notin> set (zero_pad k n)"
proof -
  have "CHR ''_'' \<notin> set (Itoa_nat n)"
    using Itoa_nat_digits [of n] by auto
  then show ?thesis
    by (simp add: zero_pad_def)
qed

lemma Format_stamp_no_underscore: "CHR ''_'' \<notin> set (Format_stamp c)"
  by (simp add: Format_stamp_def zero_pad_no_underscore)

subsection \<open>Splitting\<close>

lemma Split_first: "sep \<notin> set t \<Longrightarrow> Split (t @ sep # d) sep = t # Split d sep"
  by (induction t) auto

lemma Split_not_Nil: "Split s sep \<noteq> []"
  by (induction s) (auto split: list.splits)

lemma taskID_stamp:
  "hd (Split (gen_taskID (Format_stamp c) n) (CHR ''_'')) = Format_stamp c"
  by (simp add: gen_taskID_def Split_first Format_stamp_no_underscore)


section \<open>Properties of a submission\<close>

lemma submit_accepted:
  assumes "enqueued (submitTaskHandler r w db) = Some task"
  obtains name where
    "req_file r = Some name"
    "ID task = gen_taskID (Format_stamp (clock_stamp w)) (clock_nano w)"
    "Filename task = name"
    "Status task = ''queued''"
    "Params task = Encoded (collect_params (req_form r))"
    "CompletedAt task = None"
    "OutputFiles task = []"
    "new_db (submitTaskHandler r w db) = db @ [task_row task]"
    "\<not> list_ex (\<lambda>r'. col_id r' = ID task) db"
    "stored_input (submitTaskHandler r w db) =
       Some (filepath_Join uploadDir (Format_stamp (clock_stamp w) @ ''_'' @ name))"
    "response (submitTaskHandler r w db) = Accepted (ID task)"
proof (cases "req_file r")
  case None
  with assms show ?thesis
    by (simp add: submitTaskHandler_def rejected_def split: if_splits)
next
  case (Some name)
  from assms Some have ok: "req_method r = ''POST''" "\<not> req_parse_error r"
    "HasSuffix (ToLower name) ''.pdf''" "\<not> create_error w" "\<not> copy_error w"
    by (auto simp: submitTaskHandler_def rejected_def Let_def split: if_splits)
  show ?thesis
  proof (rule that [of name])
    show "req_file r = Some name" by (fact Some)
  qed (use assms Some ok in
      \<open>auto simp: submitTaskHandler_def rejected_def Let_def sql_insert_def json_Marshal_def
         task_row_def split: if_splits\<close>)
qed


lemmas submit_eval =
  submitTaskHandler_def example_request_def example_submit_world_def Let_def rejected_def
  HasSuffix_def suffix_to_prefix ToLower_def lower_char_def gen_taskID_def Format_stamp_def
  zero_pad_def Itoa_def Itoa_nat.simps digit_char_def go_rem_def FormValue_def
  json_Marshal_def sql_insert_def task_row_def example_task_def filepath_Join_def

subsection \<open>The path of the uploaded file\<close>

text \<open>
  C9. For a task that a submission has sent to the queue, the input path that the worker
  rebuilds from the part of the task id before the first underscore and the file name of
  the task is the path at which the handler stored the upload.
\<close>

theorem stored_path_roundtrip:
  assumes "enqueued (submitTaskHandler r w db) = Some task"
  shows "stored_input (submitTaskHandler r w db) = Some (task_inputPath task)"
proof -
  from assms obtain name where
    i: "ID task = gen_taskID (Format_stamp (clock_stamp w)) (clock_nano w)"
    and f: "Filename task = name"
    and s: "stored_input (submitTaskHandler r w db) =
       Some (filepath_Join uploadDir (Format_stamp (clock_stamp w) @ ''_'' @ name))"
    by (rule submit_accepted)
  have "task_inputPath task =
      filepath_Join uploadDir (Format_stamp (clock_stamp w) @ ''_'' @ name)"
    by (simp add: task_inputPath_def i f taskID_stamp del: append.simps)
  with s show ?thesis by simp
qed

theorem stored_path_roundtrip_witness:
  "enqueued (submitTaskHandler (example_request []) (example_submit_world 1704164645000006789) [])
     = Some (example_task (Encoded []) \<lparr>CreatedAt := 1704164645000007789\<rparr>) \<and>
   stored_input (submitTaskHandler (example_request []) (example_submit_world 1704164645000006789) [])
     = Some ''/tmp/babeldoc/uploads/20240102-030405_report.pdf'' \<and>
   task_inputPath (example_task (Encoded []) \<lparr>CreatedAt := 1704164645000007789\<rparr>)
     = ''/tmp/babeldoc/uploads/20240102-030405_report.pdf''"
proof -
  have h: "enqueued (submitTaskHandler (example_request [])
      (example_submit_world 1704164645000006789) [])
     = Some (example_task (Encoded []) \<lparr>CreatedAt := 1704164645000007789\<rparr>)"
    by (simp add: submit_eval collect_params_def)
  have p: "task_inputPath (example_task (Encoded []) \<lparr>CreatedAt := 1704164645000007789\<rparr>)
     = ''/tmp/babeldoc/uploads/20240102-030405_report.pdf''"
    by code_simp
  from stored_path_roundtrip [OF h] h p show ?thesis by simp
qed

subsection \<open>Identifiers\<close>

lemma gen_taskID_eq:
  "gen_taskID (Format_stamp c1) n1 = gen_taskID (Format_stamp c2) n2 \<longleftrightarrow>
   Format_stamp c1 = Format_stamp c2 \<and> go_rem n1 10000 = go_rem n2 10000"
proof
  assume e: "gen_taskID (Format_stamp c1) n1 = gen_taskID (Format_stamp c2) n2"
  then have "hd (Split (gen_taskID (Format_stamp c1) n1) (CHR ''_'')) =
      hd (Split (gen_taskID (Format_stamp c2) n2) (CHR ''_''))"
    by simp
  then have s: "Format_stamp c1 = Format_stamp c2"
    by (simp only: taskID_stamp)
  with e have "Itoa (go_rem n1 10000) = Itoa (go_rem n2 10000)"
    by (simp add: gen_taskID_def)
  then have "go_rem n1 10000 = go_rem n2 10000"
    by (rule Itoa_inj)
  with s show "Format_stamp c1 = Format_stamp c2 \<and> go_rem n1 10000 = go_rem n2 10000"
    by simp
next
  assume "Format_stamp c1 = Format_stamp c2 \<and> go_rem n1 10000 = go_rem n2 10000"
  then show "gen_taskID (Format_stamp c1) n1 = gen_taskID (Format_stamp c2) n2"
    by (simp add: gen_taskID_def)
qed

lemma submit_distinct:
  assumes "distinct (map col_id db)"
  shows "distinct (map col_id (new_db (submitTaskHandler r w db)))"
proof (cases "enqueued (submitTaskHandler r w db)")
  case None
  then have "new_db (submitTaskHandler r w db) = db"
    by (auto simp: submitTaskHandler_def rejected_def Let_def
        split: if_splits option.splits)
  with assms show ?thesis by simp
next
  case (Some task)
  then obtain name where
    n: "new_db (submitTaskHandler r w db) = db @ [task_row task]"
    and f: "\<not> list_ex (\<lambda>r'. col_id r' = ID task) db"
    by (rule submit_accepted)
  from f have "ID task \<notin> col_id ` set db"
    by (auto simp: list_ex_iff)
  with assms n show ?thesis
    by (simp add: task_row_def)
qed

lemma submit_valid:
  assumes "req_method r = ''POST''" and "\<not> req_parse_error r" and "req_file r = Some name"
    and "HasSuffix (ToLower name) ''.pdf''" and "\<not> create_error w" and "\<not> copy_error w"
  shows "if list_ex (\<lambda>r'. col_id r' = gen_taskID (Format_stamp (clock_stamp w)) (clock_nano w)) db
         then response (submitTaskHandler r w db) =
                Rejected 500 (''Error saving task: '' @ insert_error_text w) \<and>
              new_db (submitTaskHandler r w db) = db \<and>
              enqueued (submitTaskHandler r w db) = None \<and>
              stored_input (submitTaskHandler r w db) = None
         else response (submitTaskHandler r w db) =
                Accepted (gen_taskID (Format_stamp (clock_stamp w)) (clock_nano w)) \<and>
              (\<exists>task. enqueued (submitTaskHandler r w db) = Some task \<and>
                 ID task = gen_taskID (Format_stamp (clock_stamp w)) (clock_nano w) \<and>
                 Status task = ''queued'' \<and>
                 new_db (submitTaskHandler r w db) = db @ [task_row task])"
  using assms
  by (simp add: submitTaskHandler_def rejected_def Let_def sql_insert_def task_row_def)

text \<open>
  C7, as amended. Two submissions are given the same identifier exactly when their
  time stamps (to the second) are the same text and their clock readings in nanoseconds
  have the same remainder by 10000. The part of an identifier before its first underscore
  is the time stamp of the submission. The table never holds two rows with one
  identifier: a valid submission whose identifier is in the table is rejected with the
  error of the insert, and the table stays as it was; a valid submission whose identifier
  is not in the table is accepted under it, and its row is added to the table.
\<close>

theorem task_ids:
  "(gen_taskID (Format_stamp c1) n1 = gen_taskID (Format_stamp c2) n2 \<longleftrightarrow>
      Format_stamp c1 = Format_stamp c2 \<and> go_rem n1 10000 = go_rem n2 10000) \<and>
   hd (Split (gen_taskID (Format_stamp c1) n1) (CHR ''_'')) = Format_stamp c1 \<and>
   (distinct (map col_id db) \<longrightarrow> distinct (map col_id (new_db (submitTaskHandler r w db)))) \<and>
   (req_method r = ''POST'' \<and> \<not> req_parse_error r \<and> req_file r = Some name \<and>
    HasSuffix (ToLower name) ''.pdf'' \<and> \<not> create_error w \<and> \<not> copy_error w \<longrightarrow>
      (if list_ex (\<lambda>r'. col_id r' = gen_taskID (Format_stamp (clock_stamp w)) (clock_nano w)) db
       then response (submitTaskHandler r w db) =
              Rejected 500 (''Error saving task: '' @ insert_error_text w) \<and>
            new_db (submitTaskHandler r w db) = db \<and>
            enqueued (submitTaskHandler r w db) = None \<and>
            stored_input (submitTaskHandler r w db) = None
       else response (submitTaskHandler r w db) =
              Accepted (gen_taskID (Format_stamp (clock_stamp w)) (clock_nano w)) \<and>
            (\<exists>task. enqueued (submitTaskHandler r w db) = Some task \<and>
               ID task = gen_taskID (Format_stamp (clock_stamp w)) (clock_nano w) \<and>
               Status task = ''queued'' \<and>
               new_db (submitTaskHandler r w db) = db @ [task_row task])))"
  using gen_taskID_eq [of c1 n1 c2 n2] taskID_stamp [of c1 n1] submit_distinct [of db r w]
    submit_valid [of r name w db]
  by blast

theorem task_ids_witness:
  "distinct (map col_id [task_row (example_task (Encoded []))]) \<and>
   req_method (example_request []) = ''POST'' \<and>
   \<not> req_parse_error (example_request []) \<and>
   req_file (example_request []) = Some ''report.pdf'' \<and>
   HasSuffix (ToLower ''report.pdf'') ''.pdf'' \<and>
   \<not> create_error (example_submit_world 1704164645000006789) \<and>
   \<not> copy_error (example_submit_world 1704164645000006789) \<and>
   gen_taskID (Format_stamp (clock_stamp (example_submit_world 1704164645000006789)))
     (clock_nano (example_submit_world 1704164645000006789)) = ''20240102-030405_6789'' \<and>
   distinct (map col_id (new_db (submitTaskHandler (example_request [])
     (example_submit_world 1704164645000006789) [task_row (example_task (Encoded []))]))) \<and>
   response (submitTaskHandler (example_request [])
     (example_submit_world 1704164645000006789) [task_row (example_task (Encoded []))]) =
     Rejected 500
       ''Error saving task: constraint failed: UNIQUE constraint failed: tasks.id (1555)'' \<and>
   new_db (submitTaskHandler (example_request [])
     (example_submit_world 1704164645000006789) [task_row (example_task (Encoded []))]) =
     [task_row (example_task (Encoded []))] \<and>
   response (submitTaskHandler (example_request [])
     (example_submit_world 1704164645000006789) []) = Accepted ''20240102-030405_6789''"
proof -
  let ?r = "example_request []"
  let ?w = "example_submit_world 1704164645000006789"
  let ?db = "[task_row (example_task (Encoded []))]"
  have h: "distinct (map col_id ?db)"
    by simp
  have v: "req_method ?r = ''POST''" "\<not> req_parse_error ?r" "req_file ?r = Some ''report.pdf''"
    "HasSuffix (ToLower ''report.pdf'') ''.pdf''" "\<not> create_error ?w" "\<not> copy_error ?w"
    by (simp_all add: submit_eval)
  have g: "gen_taskID (Format_stamp (clock_stamp ?w)) (clock_nano ?w) = ''20240102-030405_6789''"
    by (simp add: submit_eval)
  have i: "list_ex (\<lambda>r'. col_id r' = ''20240102-030405_6789'') ?db"
    "\<not> list_ex (\<lambda>r'. col_id r' = ''20240102-030405_6789'') []"
    by (simp_all add: task_row_def example_task_def)
  have e: "insert_error_text ?w =
      ''constraint failed: UNIQUE constraint failed: tasks.id (1555)''"
    by (simp add: example_submit_world_def)
  from task_ids [where db = ?db and r = ?r and w = ?w and name = "''report.pdf''"] h v
  have a: "distinct (map col_id (new_db (submitTaskHandler ?r ?w ?db)))"
    and b: "response (submitTaskHandler ?r ?w ?db) =
      Rejected 500
        ''Error saving task: constraint failed: UNIQUE constraint failed: tasks.id (1555)''"
    and c: "new_db (submitTaskHandler ?r ?w ?db) = ?db"
    unfolding g using i(1) e by simp_all
  from task_ids [where db = "[]" and r = ?r and w = ?w and name = "''report.pdf''"] v
  have d: "response (submitTaskHandler ?r ?w []) = Accepted ''20240102-030405_6789''"
    unfolding g using i(2) by simp
  from h v g a b c d show ?thesis
    by simp
qed

text \<open>
  The claim as stated fails: two submissions in the same second whose clock readings
  differ by 10000 nanoseconds are given the same identifier. Each alone is accepted under
  it; the second after the first is rejected by the table.
\<close>

theorem task_ids_counterexample:
  "clock_nano (example_submit_world 1704164645000001234) \<noteq>
     clock_nano (example_submit_world 1704164645000011234) \<and>
   response (submitTaskHandler (example_request [])
     (example_submit_world 1704164645000001234) []) = Accepted ''20240102-030405_1234'' \<and>
   response (submitTaskHandler (example_request [])
     (example_submit_world 1704164645000011234) []) = Accepted ''20240102-030405_1234'' \<and>
   response (submitTaskHandler (example_request [])
     (example_submit_world 1704164645000011234)
     (new_db (submitTaskHandler (example_request [])
        (example_submit_world 1704164645000001234) []))) =
     Rejected 500
       ''Error saving task: constraint failed: UNIQUE constraint failed: tasks.id (1555)''"
  by (simp add: submit_eval collect_params_def)

section \<open>Properties of a run\<close>

subsection \<open>State projections\<close>

lemma writeLog_proj [simp]:
  "rs_task (writeLog st m) = rs_task st"
  "rs_db (writeLog st m) = rs_db st"
  "rs_spawned (writeLog st m) = rs_spawned st"
  "rs_log (writeLog st m) = rs_log st @ [m]"
  by (simp_all add: writeLog_def)

lemma failTask_proj [simp]:
  "rs_task (failTask w st e) =
     (rs_task st)\<lparr>Status := ''failed'', CompletedAt := Some (clock_completed w), Error := e\<rparr>"
  "rs_db (failTask w st e) =
     sql_update_failed (rs_db st) ''failed'' (Some (clock_completed w)) e (ID (rs_task st))"
  "rs_spawned (failTask w st e) = rs_spawned st"
  "rs_log (failTask w st e) = rs_log st"
  by (simp_all add: failTask_def Let_def)

lemma fold_move_file_proj:
  "rs_task (snd (fold (move_file w i) fs acc)) = rs_task (snd acc) \<and>
   rs_db (snd (fold (move_file w i) fs acc)) = rs_db (snd acc) \<and>
   rs_spawned (snd (fold (move_file w i) fs acc)) = rs_spawned (snd acc) \<and>
   set (rs_log (snd acc)) \<subseteq> set (rs_log (snd (fold (move_file w i) fs acc)))"
proof (induction fs arbitrary: acc)
  case Nil
  show ?case by simp
next
  case (Cons f fs)
  have step: "rs_task (snd (move_file w i f acc)) = rs_task (snd acc) \<and>
      rs_db (snd (move_file w i f acc)) = rs_db (snd acc) \<and>
      rs_spawned (snd (move_file w i f acc)) = rs_spawned (snd acc) \<and>
      set (rs_log (snd acc)) \<subseteq> set (rs_log (snd (move_file w i f acc)))"
    by (cases acc) (auto simp: move_file_def Let_def split: option.splits)
  from Cons.IH [of "move_file w i f acc"] step show ?case
    by auto
qed

lemma ended_failTask: "rs_task st = T \<Longrightarrow> rs_db st = D \<Longrightarrow> ended w T D (failTask w st e)"
  unfolding ended_def by auto

lemma ended_collect_outputs:
  assumes "rs_task st = T" "rs_db st = D"
  shows "ended w T D (collect_outputs w st)"
proof (cases "glob_result w")
  case None
  then show ?thesis
    using assms by (simp add: collect_outputs_def ended_failTask)
next
  case (Some files)
  obtain ns st1 where f: "fold (move_file w (ID (rs_task st))) files ([], st) = (ns, st1)"
    by (cases "fold (move_file w (ID (rs_task st))) files ([], st)")
  have p: "rs_task st1 = T" "rs_db st1 = D"
    using fold_move_file_proj [of w "ID (rs_task st)" files "([], st)"] f assms by auto
  show ?thesis
  proof (cases "files = [] \<or> ns = []")
    case True
    then show ?thesis
      using Some f p by (auto simp: collect_outputs_def ended_failTask)
  next
    case False
    then obtain n ns' where ns: "ns = n # ns'"
      by (cases ns) auto
    from False Some f p ns have
      "rs_task (collect_outputs w st) =
         T\<lparr>Status := ''success'', CompletedAt := Some (clock_completed w),
           OutputFile := n, OutputFiles := n # ns'\<rparr>"
      "rs_db (collect_outputs w st) =
         sql_update_success D ''success'' (Some (clock_completed w)) n
           (Encoded (n # ns')) (ID T)"
      by (simp_all add: collect_outputs_def Let_def json_Marshal_def)
    then show ?thesis
      unfolding ended_def by blast
  qed
qed

lemma collect_outputs_spawned: "rs_spawned (collect_outputs w st) = rs_spawned st"
proof (cases "glob_result w")
  case None
  then show ?thesis
    by (simp add: collect_outputs_def)
next
  case (Some files)
  obtain ns st1 where f: "fold (move_file w (ID (rs_task st))) files ([], st) = (ns, st1)"
    by (cases "fold (move_file w (ID (rs_task st))) files ([], st)")
  have "rs_spawned st1 = rs_spawned st"
    using fold_move_file_proj [of w "ID (rs_task st)" files "([], st)"] f by simp
  with Some f show ?thesis
    by (auto simp: collect_outputs_def Let_def split: list.splits)
qed

lemma ended_log [simp]: "ended w T D (st\<lparr>rs_log := l\<rparr>) = ended w T D st"
  by (simp add: ended_def)

lemma run_command_cases:
  "(\<exists>err. start_error w = Some err \<and>
      run_command w st a =
        failTask w
          (writeLog
             (writeLog st
                (''==> '' @ zh_exec_cmd @ '': babeldoc '' @ Join (a @ [''--openai'']) '' '' @ newline))
             (''ERROR: '' @ zh_cannot_start @ '': '' @ err @ newline))
          err) \<or>
   (\<exists>st3 l. start_error w = None \<and> run_command w st a = st3\<lparr>rs_log := l\<rparr> \<and>
      ended w (rs_task st) (rs_db st) st3 \<and>
      rs_spawned st3 =
        Some (a @ [''--openai''], Environ (environ w) @ credential_env (Params (rs_task st))))"
proof (cases "start_error w")
  case (Some err)
  then show ?thesis
    by (simp add: run_command_def Let_def)
next
  case None
  let ?line = "''==> '' @ zh_exec_cmd @ '': babeldoc '' @ Join (a @ [''--openai'']) '' '' @ newline"
  let ?st2 = "(writeLog st ?line)\<lparr>rs_log := [],
    rs_spawned := Some (a @ [''--openai''],
      Environ (environ w) @ credential_env (Params (rs_task st)))\<rparr>"
  let ?st3 = "case wait_error w of
      Some err \<Rightarrow>
        failTask w (writeLog ?st2 (newline @ ''ERROR: '' @ zh_cmd_failed @ '': '' @ err @ newline))
          err
    | None \<Rightarrow> collect_outputs w ?st2"
  have r: "run_command w st a =
      ?st3\<lparr>rs_log := rs_log (writeLog st ?line) @
        weave (\<lambda>k. map printed_line (printed w k)) 0 (rs_log ?st3)\<rparr>"
    using None by (cases "wait_error w") (simp_all add: run_command_def Let_def)
  have e: "ended w (rs_task st) (rs_db st) ?st3"
    by (cases "wait_error w") (simp_all add: ended_failTask ended_collect_outputs)
  have s: "rs_spawned ?st3 =
      Some (a @ [''--openai''], Environ (environ w) @ credential_env (Params (rs_task st)))"
    by (cases "wait_error w") (simp_all add: collect_outputs_spawned)
  from None r e s show ?thesis
    by blast
qed

lemma ended_run_command:
  assumes "rs_task st = T" "rs_db st = D"
  shows "ended w T D (run_command w st a)"
  using run_command_cases [of w st a] assms
  by (auto simp: ended_failTask)

lemma start_task_proj [simp]:
  "rs_task (start_task w t db) = t\<lparr>Status := ''running'', StartedAt := Some (clock_started w)\<rparr>"
  "rs_db (start_task w t db) = sql_update_started db ''running'' (Some (clock_started w)) (ID t)"
  "rs_log (start_task w t db) = []"
  "rs_spawned (start_task w t db) = None"
  by (simp_all add: start_task_def Let_def)

lemma ended_processTask:
  "ended w (rs_task (start_task w t db)) (rs_db (start_task w t db)) (processTask w t db)"
  unfolding processTask_def Let_def
  by (auto intro!: ended_failTask ended_run_command)


subsection \<open>The parameter loop\<close>

lemma param_body_flags:
  "hasAPIKey (param_body kv ps) =
     (hasAPIKey ps \<or> fst kv = ''openai-api-key'' \<and> TrimSpace (snd kv) \<noteq> [])"
  "hasModel (param_body kv ps) =
     (hasModel ps \<or> fst kv = ''openai-model'' \<and> TrimSpace (snd kv) \<noteq> [])"
  "hasBaseURL (param_body kv ps) =
     (hasBaseURL ps \<or> fst kv = ''openai-base-url'' \<and> TrimSpace (snd kv) \<noteq> [])"
  by (cases kv; simp add: param_body_def Let_def)+

lemma fold_param_body_flags:
  "hasAPIKey (fold param_body m ps) =
     (hasAPIKey ps \<or> list_ex (\<lambda>kv. fst kv = ''openai-api-key'' \<and> TrimSpace (snd kv) \<noteq> []) m)"
  "hasModel (fold param_body m ps) =
     (hasModel ps \<or> list_ex (\<lambda>kv. fst kv = ''openai-model'' \<and> TrimSpace (snd kv) \<noteq> []) m)"
  "hasBaseURL (fold param_body m ps) =
     (hasBaseURL ps \<or> list_ex (\<lambda>kv. fst kv = ''openai-base-url'' \<and> TrimSpace (snd kv) \<noteq> []) m)"
  by (induction m arbitrary: ps; auto simp: param_body_flags)+

lemma parse_params_flags:
  "hasAPIKey (parse_params P ps) = (hasAPIKey ps \<or> supplies P ''openai-api-key'')"
  "hasModel (parse_params P ps) = (hasModel ps \<or> supplies P ''openai-model'')"
  "hasBaseURL (parse_params P ps) = (hasBaseURL ps \<or> supplies P ''openai-base-url'')"
  by (cases P; simp add: parse_params_def supplies_def fold_param_body_flags)+



lemma weave_set: "set ms \<subseteq> set (weave f k ms)"
  by (induction ms arbitrary: k) auto



subsection \<open>Missing credentials\<close>

text \<open>
  C1, as amended. When the parameter map of a task supplies none of \<open>openai-api-key\<close>,
  \<open>openai-model\<close> and \<open>openai-base-url\<close> and the environment has no
  \<open>OPENAI_API_KEY\<close>, the run fails the task and starts no process. The error is the
  one for missing credentials and the log holds the three opening lines and the error line
  and no line of an invocation (when the log file itself cannot be created, the error is
  that one and there is no log).
\<close>

theorem missing_credentials_fail:
  assumes "\<not> supplies (Params t) ''openai-api-key''"
    and "\<not> supplies (Params t) ''openai-model''"
    and "\<not> supplies (Params t) ''openai-base-url''"
    and "Getenv (environ w) ''OPENAI_API_KEY'' = []"
  shows "Status (rs_task (processTask w t db)) = ''failed'' \<and>
         Error (rs_task (processTask w t db)) =
           (if log_create_error w then zh_cannot_create_log else missing_credentials) \<and>
         rs_spawned (processTask w t db) = None \<and>
         rs_log (processTask w t db) =
           (if log_create_error w then []
            else [''==> '' @ zh_start_task @ '' '' @ ID t @ newline,
                  ''==> '' @ zh_filename @ '': '' @ Filename t @ newline,
                  ''==> '' @ zh_language @ '': '' @ LangIn t @ '' -> '' @ LangOut t @ newline,
                  ''ERROR: '' @ zh_not_configured @ '' OpenAI'' @ zh_fill_form @
                  '' API Key'' @ zh_sep_model @ '' Base URL'' @ zh_or_set_env @
                  '' OPENAI_API_KEY'' @ newline])"
  using assms
  by (simp add: processTask_def Let_def parse_params_flags missing_credentials_def)

theorem missing_credentials_fail_witness:
  "\<not> supplies (Encoded [(''no-dual'', ''on''), (''openai-api-key'', ''  '')]) ''openai-api-key'' \<and>
   \<not> supplies (Encoded [(''no-dual'', ''on''), (''openai-api-key'', ''  '')]) ''openai-model'' \<and>
   \<not> supplies (Encoded [(''no-dual'', ''on''), (''openai-api-key'', ''  '')]) ''openai-base-url'' \<and>
   Getenv [(''PORT'', ''8080'')] ''OPENAI_API_KEY'' = [] \<and>
   Status (rs_task (processTask (example_world [(''PORT'', ''8080'')] None None)
     (example_task (Encoded [(''no-dual'', ''on''), (''openai-api-key'', ''  '')])) [])) = ''failed'' \<and>
   Error (rs_task (processTask (example_world [(''PORT'', ''8080'')] None None)
     (example_task (Encoded [(''no-dual'', ''on''), (''openai-api-key'', ''  '')])) [])) =
     missing_credentials \<and>
   rs_spawned (processTask (example_world [(''PORT'', ''8080'')] None None)
     (example_task (Encoded [(''no-dual'', ''on''), (''openai-api-key'', ''  '')])) []) = None"
proof -
  let ?P = "Encoded [(''no-dual'', ''on''), (''openai-api-key'', ''  '')]"
  let ?w = "example_world [(''PORT'', ''8080'')] None None"
  have p: "Params (example_task ?P) = ?P" and e: "environ ?w = [(''PORT'', ''8080'')]"
    and l: "\<not> log_create_error ?w"
    by (simp_all add: example_task_def example_world_def)
  have h1: "\<not> supplies ?P ''openai-api-key''" by code_simp
  have h2: "\<not> supplies ?P ''openai-model''" by code_simp
  have h3: "\<not> supplies ?P ''openai-base-url''" by code_simp
  have h4: "Getenv [(''PORT'', ''8080'')] ''OPENAI_API_KEY'' = []" by code_simp
  from missing_credentials_fail [of "example_task ?P" ?w "[]"] p e l h1 h2 h3 h4
  show ?thesis by simp
qed

text \<open>
  The claim as stated fails: a task whose parameters give a model and no API key, run
  with no \<open>OPENAI_API_KEY\<close> in the environment, starts the process, and its error is
  the one of the process.
\<close>

theorem missing_credentials_counterexample:
  "\<not> supplies (Params (example_task (Encoded [(''openai-model'', ''gpt-4o'')]))) ''openai-api-key'' \<and>
   Getenv (environ (example_world [(''PORT'', ''8080'')] (Some ''exit status 1'') None))
     ''OPENAI_API_KEY'' = [] \<and>
   rs_spawned (processTask (example_world [(''PORT'', ''8080'')] (Some ''exit status 1'') None)
     (example_task (Encoded [(''openai-model'', ''gpt-4o'')])) []) =
     Some ([''--files'', ''/tmp/babeldoc/uploads/20240102-030405_report.pdf'',
            ''--lang-in'', ''en'', ''--lang-out'', ''zh'',
            ''--output'', ''/tmp/babeldoc/outputs/20240102-030405_6789'',
            ''--openai-model'', ''gpt-4o'', ''--openai''],
           [''PORT=8080'']) \<and>
   Error (rs_task (processTask (example_world [(''PORT'', ''8080'')] (Some ''exit status 1'') None)
     (example_task (Encoded [(''openai-model'', ''gpt-4o'')])) [])) = ''exit status 1''"
  by code_simp

subsection \<open>A clean exit without output\<close>

lemma run_command_not_started:
  "rs_spawned st = None \<Longrightarrow> start_error w \<noteq> None \<Longrightarrow> rs_spawned (run_command w st a) = None"
  by (auto simp: run_command_def Let_def)

lemma run_command_no_output:
  assumes "start_error w = None" "wait_error w = None" "glob_result w = Some []"
  shows "rs_task (run_command w st a) =
           (rs_task st)\<lparr>Status := ''failed'', CompletedAt := Some (clock_completed w),
                         Error := zh_no_output\<rparr>"
    and "rs_db (run_command w st a) =
           sql_update_failed (rs_db st) ''failed'' (Some (clock_completed w)) zh_no_output
             (ID (rs_task st))"
    and "''ERROR: '' @ zh_no_output @ newline \<in> set (rs_log (run_command w st a))"
  using assms weave_set [of "[''ERROR: '' @ zh_no_output @ newline]"]
  by (simp_all add: run_command_def Let_def collect_outputs_def)

lemma sql_update_failed_started:
  "sql_update_failed (sql_update_started db s1 b i) s2 c e i =
   map (\<lambda>r. if col_id r = i
            then r\<lparr>col_status := s2, col_started_at := b, col_completed_at := c,
                   col_error := Some e\<rparr>
            else r) db"
  by (induction db) (simp_all add: sql_update_failed_def sql_update_started_def)

text \<open>
  C5. When the process was started and ended without an error (exit status zero) and the
  glob for output files in the scratch directory finds nothing, the task fails with the
  error for missing output: the task has the status \<open>failed\<close>, this error and a
  completion time, the error line is in the log, and in the table exactly the rows with
  the identifier of the task are set to \<open>failed\<close> with this error and completion time.
\<close>

theorem no_output_fails:
  assumes "rs_spawned (processTask w t db) \<noteq> None"
    and "wait_error w = None"
    and "glob_result w = Some []"
  shows "Status (rs_task (processTask w t db)) = ''failed'' \<and>
         Error (rs_task (processTask w t db)) = zh_no_output \<and>
         CompletedAt (rs_task (processTask w t db)) = Some (clock_completed w) \<and>
         OutputFiles (rs_task (processTask w t db)) = OutputFiles t \<and>
         ''ERROR: '' @ zh_no_output @ newline \<in> set (rs_log (processTask w t db)) \<and>
         rs_db (processTask w t db) =
           map (\<lambda>r. if col_id r = ID t
                    then r\<lparr>col_status := ''failed'', col_started_at := Some (clock_started w),
                           col_completed_at := Some (clock_completed w),
                           col_error := Some zh_no_output\<rparr>
                    else r) db"
proof -
  have s: "start_error w = None"
  proof (rule ccontr)
    assume "start_error w \<noteq> None"
    then have "rs_spawned (processTask w t db) = None"
      by (simp add: processTask_def Let_def run_command_not_started)
    with assms(1) show False by simp
  qed
  have l: "\<not> log_create_error w"
    using assms(1) by (auto simp: processTask_def Let_def)
  have g: "\<not> (\<not> hasAPIKey (parse_params (Params t)
               \<lparr>args = base_args (t\<lparr>Status := ''running'', StartedAt := Some (clock_started w)\<rparr>),
                hasAPIKey = False, hasModel = False, hasBaseURL = False\<rparr>) \<and>
            \<not> hasModel (parse_params (Params t)
               \<lparr>args = base_args (t\<lparr>Status := ''running'', StartedAt := Some (clock_started w)\<rparr>),
                hasAPIKey = False, hasModel = False, hasBaseURL = False\<rparr>) \<and>
            \<not> hasBaseURL (parse_params (Params t)
               \<lparr>args = base_args (t\<lparr>Status := ''running'', StartedAt := Some (clock_started w)\<rparr>),
                hasAPIKey = False, hasModel = False, hasBaseURL = False\<rparr>) \<and>
            Getenv (environ w) ''OPENAI_API_KEY'' = [])"
    using assms(1) l by (auto simp: processTask_def Let_def)
  show ?thesis
    using l g run_command_no_output [OF s assms(2) assms(3)]
    by (auto simp: processTask_def Let_def sql_update_failed_started)
qed

theorem no_output_fails_witness:
  "rs_spawned (processTask (example_world [(''OPENAI_API_KEY'', ''sk-test'')] None (Some []))
     (example_task (Encoded [])) [task_row (example_task (Encoded []))]) \<noteq> None \<and>
   wait_error (example_world [(''OPENAI_API_KEY'', ''sk-test'')] None (Some [])) = None \<and>
   glob_result (example_world [(''OPENAI_API_KEY'', ''sk-test'')] None (Some [])) = Some [] \<and>
   Status (rs_task (processTask (example_world [(''OPENAI_API_KEY'', ''sk-test'')] None (Some []))
     (example_task (Encoded [])) [task_row (example_task (Encoded []))])) = ''failed'' \<and>
   Error (rs_task (processTask (example_world [(''OPENAI_API_KEY'', ''sk-test'')] None (Some []))
     (example_task (Encoded [])) [task_row (example_task (Encoded []))])) = zh_no_output \<and>
   rs_db (processTask (example_world [(''OPENAI_API_KEY'', ''sk-test'')] None (Some []))
     (example_task (Encoded [])) [task_row (example_task (Encoded []))]) =
     [(task_row (example_task (Encoded [])))
        \<lparr>col_status := ''failed'', col_started_at := Some 1704164646000000000,
         col_completed_at := Some 1704164650000000000, col_error := Some zh_no_output\<rparr>]"
proof -
  let ?w = "example_world [(''OPENAI_API_KEY'', ''sk-test'')] None (Some [])"
  let ?t = "example_task (Encoded [])"
  have h1: "rs_spawned (processTask ?w ?t [task_row ?t]) \<noteq> None" by code_simp
  have h2: "wait_error ?w = None" by (simp add: example_world_def)
  have h3: "glob_result ?w = Some []" by (simp add: example_world_def)
  have c: "clock_started ?w = 1704164646000000000" "clock_completed ?w = 1704164650000000000"
    by (simp_all add: example_world_def)
  have i: "col_id (task_row ?t) = ID ?t"
    by (simp add: task_row_def)
  from no_output_fails [OF h1 h2 h3] h1 h2 h3 show ?thesis
    by (simp add: c i)
qed

subsection \<open>The log\<close>









lemma move_file_environ: "move_file (w\<lparr>environ := e\<rparr>) i f acc = move_file w i f acc"
  by (simp add: move_file_def)







subsection \<open>The command line\<close>








lemma base_args_running [simp]:
  "base_args (t\<lparr>Status := s, StartedAt := b\<rparr>) = base_args t"
  by (simp add: base_args_def task_inputPath_def task_outputSubDir_def Let_def)

lemma base_args_Params [simp]: "base_args (t\<lparr>Params := p\<rparr>) = base_args t"
  by (simp add: base_args_def task_inputPath_def task_outputSubDir_def Let_def)



subsection \<open>From the form to the parameter map\<close>














section \<open>Properties of a task from submission to the end of its run\<close>

subsection \<open>The table during a run\<close>

lemma sql_update_col_params:
  "map col_params (sql_update_started D s t i) = map col_params D"
  "map col_params (sql_update_failed D s c e i) = map col_params D"
  "map col_params (sql_update_success D s c f fs i) = map col_params D"
  by (induction D)
    (simp_all add: sql_update_started_def sql_update_failed_def sql_update_success_def)

lemma processTask_Params: "Params (rs_task (processTask w t db)) = Params t"
  using ended_processTask [of w t db] unfolding ended_def by auto

lemma processTask_col_params:
  "map col_params (rs_db (processTask w t db)) = map col_params db"
  using ended_processTask [of w t db] unfolding ended_def
  by (auto simp: sql_update_col_params)

subsection \<open>The stored parameters\<close>

lemma AList_update_set: "set (AList.update k v al) \<subseteq> insert (k, v) (set al)"
  by (induction al) auto

lemma collect_param_kept:
  assumes "list_all (\<lambda>kv. kept_value (snd kv)) m"
  shows "list_all (\<lambda>kv. kept_value (snd kv)) (collect_param e m)"
proof -
  have "\<And>k v. kept_value (TrimSpace v) \<Longrightarrow>
      list_all (\<lambda>kv. kept_value (snd kv)) (AList.update k (TrimSpace v) m)"
    using assms AList_update_set unfolding list_all_iff by fastforce
  moreover have "\<And>v. TrimSpace v \<noteq> [] \<Longrightarrow> TrimSpace v \<noteq> ''false'' \<Longrightarrow>
      TrimSpace v \<noteq> ''off'' \<Longrightarrow> kept_value (TrimSpace v)"
    by (simp add: kept_value_def TrimSpace_idem)
  ultimately show ?thesis
    using assms
    by (cases e) (simp add: collect_param_def Let_def split: list.splits)
qed

lemma collect_params_kept: "list_all (\<lambda>kv. kept_value (snd kv)) (collect_params form)"
proof -
  have "list_all (\<lambda>kv. kept_value (snd kv)) m \<Longrightarrow>
      list_all (\<lambda>kv. kept_value (snd kv)) (fold collect_param form m)" for m
    by (induction form arbitrary: m) (simp_all add: collect_param_kept)
  then show ?thesis
    by (simp add: collect_params_def)
qed

text \<open>
  C10. The parameter map of the task that a submission creates holds only values that
  are, once trimmed, not empty and neither \<open>false\<close> nor \<open>off\<close>; this map is what the
  new row of the table stores, and a run of the task changes neither the parameters of the
  task nor the parameter column of any row.
\<close>

theorem stored_params_kept:
  assumes "enqueued (submitTaskHandler r w db) = Some task"
  shows "Params task = Encoded (collect_params (req_form r)) \<and>
         list_all (\<lambda>kv. kept_value (snd kv)) (collect_params (req_form r)) \<and>
         map col_params (new_db (submitTaskHandler r w db)) =
           map col_params db @ [Some (Encoded (collect_params (req_form r)))] \<and>
         Params (rs_task (processTask pw task (new_db (submitTaskHandler r w db)))) =
           Encoded (collect_params (req_form r)) \<and>
         map col_params (rs_db (processTask pw task (new_db (submitTaskHandler r w db)))) =
           map col_params db @ [Some (Encoded (collect_params (req_form r)))]"
proof -
  from assms obtain name where
    p: "Params task = Encoded (collect_params (req_form r))"
    and n: "new_db (submitTaskHandler r w db) = db @ [task_row task]"
    by (rule submit_accepted)
  from p n have "map col_params (new_db (submitTaskHandler r w db)) =
      map col_params db @ [Some (Encoded (collect_params (req_form r)))]"
    by (simp add: task_row_def)
  with p show ?thesis
    by (simp add: collect_params_kept processTask_Params processTask_col_params)
qed

theorem stored_params_kept_witness:
  "enqueued (submitTaskHandler
     (example_request [(''lang_in'', [''en'']), (''watermark'', ['' off '']),
        (''no-dual'', [''on'']), (''openai-model'', ['' gpt-4o ''])])
     (example_submit_world 1704164645000006789) []) =
     Some (example_task (Encoded [(''no-dual'', ''on''), (''openai-model'', ''gpt-4o'')])
             \<lparr>CreatedAt := 1704164645000007789\<rparr>) \<and>
   list_all (\<lambda>kv. kept_value (snd kv)) [(''no-dual'', ''on''), (''openai-model'', ''gpt-4o'')] \<and>
   map col_params (rs_db (processTask (example_world [] None None)
     (example_task (Encoded [(''no-dual'', ''on''), (''openai-model'', ''gpt-4o'')])
        \<lparr>CreatedAt := 1704164645000007789\<rparr>)
     (new_db (submitTaskHandler
        (example_request [(''lang_in'', [''en'']), (''watermark'', ['' off '']),
           (''no-dual'', [''on'']), (''openai-model'', ['' gpt-4o ''])])
        (example_submit_world 1704164645000006789) [])))) =
     [Some (Encoded [(''no-dual'', ''on''), (''openai-model'', ''gpt-4o'')])]"
proof -
  let ?r = "example_request [(''lang_in'', [''en'']), (''watermark'', ['' off '']),
        (''no-dual'', [''on'']), (''openai-model'', ['' gpt-4o ''])]"
  let ?t = "example_task (Encoded [(''no-dual'', ''on''), (''openai-model'', ''gpt-4o'')])
             \<lparr>CreatedAt := 1704164645000007789\<rparr>"
  have cp: "collect_params [(''lang_in'', [''en'']), (''watermark'', ['' off '']),
        (''no-dual'', [''on'']), (''openai-model'', ['' gpt-4o ''])] =
      [(''no-dual'', ''on''), (''openai-model'', ''gpt-4o'')]"
    by code_simp
  have h: "enqueued (submitTaskHandler ?r (example_submit_world 1704164645000006789) []) =
      Some ?t"
    by (simp add: submit_eval cp)
  have f: "req_form ?r = [(''lang_in'', [''en'']), (''watermark'', ['' off '']),
        (''no-dual'', [''on'']), (''openai-model'', ['' gpt-4o ''])]"
    by (simp add: example_request_def)
  have p: "Params ?t = Encoded [(''no-dual'', ''on''), (''openai-model'', ''gpt-4o'')]"
    by (simp add: example_task_def)
  from stored_params_kept [OF h, of "example_world [] None None"] h
  show ?thesis
    unfolding p by (simp add: f cp)
qed

subsection \<open>Status, completion time and output files\<close>

lemma started_rows:
  assumes "list_all row_inv db"
    and "list_all (\<lambda>r. col_id r = i \<longrightarrow> col_completed_at r = None \<and> col_output_files r = None) db"
  shows "list_all row_inv (sql_update_started db ''running'' s i)"
  using assms
  by (auto simp: list_all_iff sql_update_started_def row_inv_def row_outputs_def)

lemma failed_rows:
  assumes "list_all row_inv db"
    and "list_all (\<lambda>r. col_id r = i \<longrightarrow> col_completed_at r = None \<and> col_output_files r = None) db"
  shows "list_all row_inv
           (sql_update_failed (sql_update_started db ''running'' s i) ''failed'' (Some c) e i)"
  using assms
  by (auto simp: list_all_iff sql_update_started_def sql_update_failed_def row_inv_def
      row_outputs_def)

lemma succeeded_rows:
  assumes "list_all row_inv db"
  shows "list_all row_inv
           (sql_update_success (sql_update_started db ''running'' s i) ''success'' (Some c) n
              (Encoded (n # ns)) i)"
  using assms
  by (auto simp: list_all_iff sql_update_started_def sql_update_success_def row_inv_def
      row_outputs_def)

lemma submit_new_db:
  "new_db (submitTaskHandler r w db) = db \<or>
   (\<exists>task. enqueued (submitTaskHandler r w db) = Some task \<and> Status task = ''queued'' \<and>
      new_db (submitTaskHandler r w db) = db @ [task_row task])"
proof (cases "enqueued (submitTaskHandler r w db)")
  case None
  then show ?thesis
    by (auto simp: submitTaskHandler_def rejected_def Let_def split: if_splits option.splits)
next
  case (Some task)
  then obtain name where "Status task = ''queued''"
    and "new_db (submitTaskHandler r w db) = db @ [task_row task]"
    by (rule submit_accepted)
  with Some show ?thesis by simp
qed

lemma delete_db:
  "del_db (deleteTaskHandler m i x db) = db \<or>
   del_db (deleteTaskHandler m i x db) = filter (\<lambda>r. col_id r \<noteq> i) db"
  by (simp add: deleteTaskHandler_def Let_def sql_delete_def split: option.splits)

lemma pending_other_run:
  assumes "pending t db" and "ID t' \<noteq> ID t"
  shows "pending t (rs_db (start_task pw t' db))"
    and "pending t (rs_db (processTask pw t' db))"
proof -
  from assms show "pending t (rs_db (start_task pw t' db))"
    by (auto simp: pending_def list_all_iff sql_update_started_def)
  from ended_processTask [of pw t' db] assms show "pending t (rs_db (processTask pw t' db))"
    unfolding ended_def
    by (auto simp: pending_def list_all_iff sql_update_started_def sql_update_failed_def
        sql_update_success_def)
qed

text \<open>
  C6, as amended. A task record has a completion time exactly when its status is
  \<open>success\<close> or \<open>failed\<close>, and a non-empty list of output files exactly when its status
  is \<open>success\<close>, as long as no identifier is run twice. When every row of the table has
  the two properties, so has every row after a submission and after a deletion; the task
  that a submission sends to the queue has them and is pending; and for a pending task, the
  running task and the task at the end of the run have them, in memory and in every row of
  the table. A pending task stays pending through every submission, every deletion and
  the run of every task with another identifier.
\<close>

theorem lifecycle_invariant:
  assumes "list_all row_inv db"
  shows "list_all row_inv (new_db (submitTaskHandler r w db)) \<and>
         list_all row_inv (del_db (deleteTaskHandler m i x db)) \<and>
         (enqueued (submitTaskHandler r w db) = Some task \<longrightarrow>
            lifecycle_inv task \<and> pending task (new_db (submitTaskHandler r w db))) \<and>
         (pending t db \<longrightarrow>
            lifecycle_inv (rs_task (start_task pw t db)) \<and>
            list_all row_inv (rs_db (start_task pw t db)) \<and>
            lifecycle_inv (rs_task (processTask pw t db)) \<and>
            list_all row_inv (rs_db (processTask pw t db)) \<and>
            pending t (new_db (submitTaskHandler r w db)) \<and>
            pending t (del_db (deleteTaskHandler m i x db)) \<and>
            (ID t' \<noteq> ID t \<longrightarrow>
               pending t (rs_db (start_task pw t' db)) \<and>
               pending t (rs_db (processTask pw t' db))))"
proof (intro conjI impI)
  show "list_all row_inv (new_db (submitTaskHandler r w db))"
    using submit_new_db [of r w db] assms
    by (auto simp: row_inv_def row_outputs_def task_row_def)
  show "list_all row_inv (del_db (deleteTaskHandler m i x db))"
    using delete_db [of m i x db] assms by (auto simp: list_all_iff)
next
  assume e: "enqueued (submitTaskHandler r w db) = Some task"
  then obtain name where
    s: "Status task = ''queued''" and c: "CompletedAt task = None"
    and o: "OutputFiles task = []"
    and n: "new_db (submitTaskHandler r w db) = db @ [task_row task]"
    and f: "\<not> list_ex (\<lambda>r'. col_id r' = ID task) db"
    by (rule submit_accepted)
  from s c o show "lifecycle_inv task"
    by (simp add: lifecycle_inv_def)
  from f have "list_all (\<lambda>r. col_id r = ID task \<longrightarrow>
      col_completed_at r = None \<and> col_output_files r = None) db"
    by (auto simp: list_all_iff list_ex_iff)
  with c o n show "pending task (new_db (submitTaskHandler r w db))"
    by (simp add: pending_def task_row_def)
next
  assume p: "pending t db"
  then have c: "CompletedAt t = None" and o: "OutputFiles t = []"
    and rows: "list_all (\<lambda>r. col_id r = ID t \<longrightarrow>
      col_completed_at r = None \<and> col_output_files r = None) db"
    by (simp_all add: pending_def)
  from c o show "lifecycle_inv (rs_task (start_task pw t db))"
    by (simp add: lifecycle_inv_def)
  from assms rows show "list_all row_inv (rs_db (start_task pw t db))"
    by (simp add: started_rows)
  have e: "ended pw (rs_task (start_task pw t db)) (rs_db (start_task pw t db))
      (processTask pw t db)"
    by (rule ended_processTask)
  from e o show "lifecycle_inv (rs_task (processTask pw t db))"
    unfolding ended_def by (auto simp: lifecycle_inv_def)
  from e show "list_all row_inv (rs_db (processTask pw t db))"
    unfolding ended_def
    using failed_rows [OF assms rows] succeeded_rows [OF assms] by auto
  show "pending t (new_db (submitTaskHandler r w db))"
    using submit_new_db [of r w db] p
    by (auto simp: pending_def task_row_def)
  show "pending t (del_db (deleteTaskHandler m i x db))"
    using delete_db [of m i x db] p by (auto simp: pending_def list_all_iff)
next
  assume "pending t db" and "ID t' \<noteq> ID t"
  then show "pending t (rs_db (start_task pw t' db))"
    by (rule pending_other_run)
next
  assume "pending t db" and "ID t' \<noteq> ID t"
  then show "pending t (rs_db (processTask pw t' db))"
    by (rule pending_other_run)
qed

theorem lifecycle_invariant_witness:
  "list_all row_inv
     [(task_row (example_task (Encoded [])))
        \<lparr>col_id := ''20240101-010101_77'', col_status := ''failed'',
         col_completed_at := Some 1704070861000000000,
         col_error := Some ''exit status 1''\<rparr>] \<and>
   enqueued (submitTaskHandler (example_request []) (example_submit_world 1704164645000006789)
     [(task_row (example_task (Encoded [])))
        \<lparr>col_id := ''20240101-010101_77'', col_status := ''failed'',
         col_completed_at := Some 1704070861000000000,
         col_error := Some ''exit status 1''\<rparr>]) = Some example_first \<and>
   pending example_first
     (new_db (submitTaskHandler (example_request []) (example_submit_world 1704164645000006789)
        [(task_row (example_task (Encoded [])))
           \<lparr>col_id := ''20240101-010101_77'', col_status := ''failed'',
            col_completed_at := Some 1704070861000000000,
            col_error := Some ''exit status 1''\<rparr>])) \<and>
   lifecycle_inv (rs_task (processTask
     (example_world [(''OPENAI_API_KEY'', ''sk-test'')] None
        (Some [''/tmp/babeldoc/outputs/20240102-030405_6789/report.zh.pdf'']))
     example_first
     (new_db (submitTaskHandler (example_request []) (example_submit_world 1704164645000006789)
        [(task_row (example_task (Encoded [])))
           \<lparr>col_id := ''20240101-010101_77'', col_status := ''failed'',
            col_completed_at := Some 1704070861000000000,
            col_error := Some ''exit status 1''\<rparr>])))) \<and>
   list_all row_inv (rs_db (processTask
     (example_world [(''OPENAI_API_KEY'', ''sk-test'')] None
        (Some [''/tmp/babeldoc/outputs/20240102-030405_6789/report.zh.pdf'']))
     example_first
     (new_db (submitTaskHandler (example_request []) (example_submit_world 1704164645000006789)
        [(task_row (example_task (Encoded [])))
           \<lparr>col_id := ''20240101-010101_77'', col_status := ''failed'',
            col_completed_at := Some 1704070861000000000,
            col_error := Some ''exit status 1''\<rparr>])))) \<and>
   ID (example_first \<lparr>ID := ''20240101-010101_77''\<rparr>) \<noteq> ID example_first \<and>
   pending example_first (rs_db (processTask
     (example_world [(''OPENAI_API_KEY'', ''sk-test'')] None
        (Some [''/tmp/babeldoc/outputs/20240102-030405_6789/report.zh.pdf'']))
     (example_first \<lparr>ID := ''20240101-010101_77''\<rparr>)
     (new_db (submitTaskHandler (example_request []) (example_submit_world 1704164645000006789)
        [(task_row (example_task (Encoded [])))
           \<lparr>col_id := ''20240101-010101_77'', col_status := ''failed'',
            col_completed_at := Some 1704070861000000000,
            col_error := Some ''exit status 1''\<rparr>]))))"
proof -
  let ?db = "[(task_row (example_task (Encoded [])))
        \<lparr>col_id := ''20240101-010101_77'', col_status := ''failed'',
         col_completed_at := Some 1704070861000000000,
         col_error := Some ''exit status 1''\<rparr>]"
  let ?res = "submitTaskHandler (example_request []) (example_submit_world 1704164645000006789)
      ?db"
  let ?pw = "example_world [(''OPENAI_API_KEY'', ''sk-test'')] None
        (Some [''/tmp/babeldoc/outputs/20240102-030405_6789/report.zh.pdf''])"
  let ?other = "example_first \<lparr>ID := ''20240101-010101_77''\<rparr>"
  have h1: "list_all row_inv ?db"
    by (simp add: row_inv_def row_outputs_def task_row_def example_task_def)
  have h2: "enqueued ?res = Some example_first"
    by (simp add: submit_eval collect_params_def example_first_def)
  have h3: "ID ?other \<noteq> ID example_first"
    by (simp add: example_first_def example_task_def)
  from lifecycle_invariant [OF h1, where r = "example_request []"
      and w = "example_submit_world 1704164645000006789" and task = example_first] h2
  have a: "list_all row_inv (new_db ?res)"
    and b: "pending example_first (new_db ?res)"
    by simp_all
  from lifecycle_invariant [OF a, where t = example_first and pw = ?pw and t' = ?other] b h3
  have "lifecycle_inv (rs_task (processTask ?pw example_first (new_db ?res))) \<and>
      list_all row_inv (rs_db (processTask ?pw example_first (new_db ?res))) \<and>
      pending example_first (rs_db (processTask ?pw ?other (new_db ?res)))"
    by blast
  with h1 h2 h3 b show ?thesis
    by blast
qed

text \<open>
  The claim as stated fails when an identifier is run twice. The first task is deleted
  while it waits, the second submission is given its identifier, and the run of the first
  task sets the row of the second to \<open>success\<close>. When the worker then starts the second
  task, its row is \<open>running\<close> and has a completion time; when that run fails, the row is
  \<open>failed\<close> and has an output file.
\<close>

theorem lifecycle_invariant_counterexample:
  "enqueued (submitTaskHandler (example_request []) (example_submit_world 1704164645000006789) [])
     = Some example_first \<and>
   del_db (deleteTaskHandler ''DELETE'' ''20240102-030405_6789'' False
     (new_db (submitTaskHandler (example_request [])
        (example_submit_world 1704164645000006789) []))) = [] \<and>
   enqueued (submitTaskHandler (example_request []) (example_submit_world 1704164645000016789) [])
     = Some example_second \<and>
   ID example_second = ID example_first \<and>
   map col_status example_reissued = [''success''] \<and>
   map col_status
     (rs_db (start_task (example_world [(''OPENAI_API_KEY'', ''sk-test'')] None None)
        example_second example_reissued)) = [''running''] \<and>
   map col_completed_at
     (rs_db (start_task (example_world [(''OPENAI_API_KEY'', ''sk-test'')] None None)
        example_second example_reissued)) = [Some 1704164650000000000] \<and>
   map col_status
     (rs_db (processTask
        (example_world [(''OPENAI_API_KEY'', ''sk-test'')] (Some ''exit status 1'') None)
        example_second example_reissued)) = [''failed''] \<and>
   map row_outputs
     (rs_db (processTask
        (example_world [(''OPENAI_API_KEY'', ''sk-test'')] (Some ''exit status 1'') None)
        example_second example_reissued)) = [[''20240102-030405_6789_report.zh.pdf'']]"
proof -
  let ?r = "example_request []"
  have e1: "enqueued (submitTaskHandler ?r (example_submit_world 1704164645000006789) [])
      = Some example_first"
    and d1: "new_db (submitTaskHandler ?r (example_submit_world 1704164645000006789) [])
      = [task_row example_first]"
    by (simp_all add: submit_eval collect_params_def example_first_def)
  have d2: "del_db (deleteTaskHandler ''DELETE'' ''20240102-030405_6789'' False
      [task_row example_first]) = []"
    by code_simp
  have e3: "enqueued (submitTaskHandler ?r (example_submit_world 1704164645000016789) [])
      = Some example_second"
    and d3: "new_db (submitTaskHandler ?r (example_submit_world 1704164645000016789) [])
      = [task_row example_second]"
    by (simp_all add: submit_eval collect_params_def example_second_def)
  have i: "ID example_second = ID example_first"
    by (simp add: example_first_def example_second_def)
  have d4: "example_reissued =
      [(task_row example_second)
         \<lparr>col_status := ''success'', col_started_at := Some 1704164646000000000,
          col_completed_at := Some 1704164650000000000,
          col_output_file := Some ''20240102-030405_6789_report.zh.pdf'',
          col_output_files := Some (Encoded [''20240102-030405_6789_report.zh.pdf''])\<rparr>]"
    unfolding example_reissued_def d1 d2 d3 by code_simp
  have s: "map col_status example_reissued = [''success'']"
    unfolding d4 by simp
  have r1: "map col_status
     (rs_db (start_task (example_world [(''OPENAI_API_KEY'', ''sk-test'')] None None)
        example_second example_reissued)) = [''running'']"
    and r2: "map col_completed_at
     (rs_db (start_task (example_world [(''OPENAI_API_KEY'', ''sk-test'')] None None)
        example_second example_reissued)) = [Some 1704164650000000000]"
    and r3: "map col_status
     (rs_db (processTask
        (example_world [(''OPENAI_API_KEY'', ''sk-test'')] (Some ''exit status 1'') None)
        example_second example_reissued)) = [''failed'']"
    and r4: "map row_outputs
     (rs_db (processTask
        (example_world [(''OPENAI_API_KEY'', ''sk-test'')] (Some ''exit status 1'') None)
        example_second example_reissued)) = [[''20240102-030405_6789_report.zh.pdf'']]"
    unfolding d4 by code_simp+
  from e1 d2 e3 i s r1 r2 r3 r4 show ?thesis
    unfolding d1 by blast
qed

subsection \<open>The list of tasks\<close>






section \<open>Properties of a download\<close>

text \<open>
  C3. The code does not do what the claim says when the task has no recorded list of
  output files. For a queued task, whose column \<open>output_files\<close> is null, the request
  for the file \<open>../uploads/20240101-010101_secret.pdf\<close> is answered with the upload of
  another task, a file outside the output directory that is in no list of this task.
\<close>

theorem download_unlisted_file:
  "OutputFiles (scan_task (task_row (example_task (Encoded [])))) = [] \<and>
   downloadTaskHandler [task_row (example_task (Encoded []))] example_files
     ''20240102-030405_6789'' ''../uploads/20240101-010101_secret.pdf'' =
   ServeFile ''/tmp/babeldoc/uploads/20240101-010101_secret.pdf''
     ''20240101-010101_secret.pdf''"
  by code_simp



end
